theory Spec2Isabelle
  imports Complex_Main
begin

section \<open>Data model of png\_to\_stl.py\<close>

text \<open>
  Coordinates are Python floats; they are modelled as real numbers, so rounding is
  idealised away. A vertex is a triple, a facet is the tuple (normal, v1, v2, v3) that
  \<open>add_triangle\<close> appends, and the mesh is the list \<open>facets\<close> in emission order.
  The grayscale image is a two-dimensional array of unsigned bytes, modelled as a list of
  rows of natural numbers.
\<close>

type_synonym vertex = "real \<times> real \<times> real"

type_synonym facet = "vertex \<times> vertex \<times> vertex \<times> vertex"

type_synonym grid = "nat list list"

text \<open>The parsed command line (\<open>args\<close>): only the fields the builders read.\<close>

record args =
  extrude_height :: real
  x_size :: real
  y_size :: real
  binary :: bool
  threshold :: int

definition default_args :: args where
  "default_args =
     \<lparr>extrude_height = 15, x_size = 120, y_size = 120, binary = False, threshold = 128\<rparr>"

text \<open>
  Failures are values. \<open>ZeroDivisionError\<close> is Python's float division by zero,
  \<open>IndexError\<close> an array access outside the shape, and \<open>FloatingPointError\<close>
  stands for numpy's divide-by-zero condition in \<open>normal / norm\<close>.
\<close>

datatype error = ZeroDivisionError | IndexError | FloatingPointError

definition and_then :: "error + 'a \<Rightarrow> ('a \<Rightarrow> error + 'b) \<Rightarrow> error + 'b" where
  "and_then m f = (case m of Inl e \<Rightarrow> Inl e | Inr x \<Rightarrow> f x)"

text \<open>\<open>for k in ks: s = body(k, s)\<close>, stopping at the first exception.\<close>

fun for_loop :: "nat list \<Rightarrow> (nat \<Rightarrow> 's \<Rightarrow> error + 's) \<Rightarrow> 's \<Rightarrow> error + 's" where
  "for_loop [] body s = Inr s"
| "for_loop (k # ks) body s = and_then (body k s) (for_loop ks body)"

text \<open>Python's \<open>a / b\<close> on a float and an int.\<close>

definition py_div :: "real \<Rightarrow> int \<Rightarrow> error + real" where
  "py_div a b = (if b = 0 then Inl ZeroDivisionError else Inr (a / real_of_int b))"

text \<open>\<open>rows, cols = img_array.shape\<close>\<close>

definition shape :: "'a list list \<Rightarrow> nat \<times> nat" where
  "shape img = (length img, (case img of [] \<Rightarrow> 0 | r # _ \<Rightarrow> length r))"

text \<open>\<open>arr[j, i]\<close> for indices that are not negative.\<close>

definition at2 :: "'a list list \<Rightarrow> nat \<Rightarrow> nat \<Rightarrow> error + 'a" where
  "at2 arr j i =
     (if j < length arr \<and> i < length (arr ! j) then Inr (arr ! j ! i) else Inl IndexError)"

text \<open>\<open>arr[j, i] = v\<close>\<close>

definition set2 :: "'a list list \<Rightarrow> nat \<Rightarrow> nat \<Rightarrow> 'a \<Rightarrow> error + 'a list list" where
  "set2 arr j i v =
     (if j < length arr \<and> i < length (arr ! j) then Inr (arr[j := (arr ! j)[i := v]])
      else Inl IndexError)"

text \<open>A numpy array is rectangular: every row has the length the shape gives.\<close>

definition rectangular :: "'a list list \<Rightarrow> bool" where
  "rectangular img = (\<forall>r \<in> set img. length r = snd (shape img))"

section \<open>Geometry kernel\<close>

definition vsub :: "vertex \<Rightarrow> vertex \<Rightarrow> vertex" where
  "vsub a b = (case a of (a1, a2, a3) \<Rightarrow> case b of (b1, b2, b3) \<Rightarrow> (a1 - b1, a2 - b2, a3 - b3))"

text \<open>\<open>np.cross\<close>\<close>

definition cross :: "vertex \<Rightarrow> vertex \<Rightarrow> vertex" where
  "cross a b =
     (case a of (a1, a2, a3) \<Rightarrow> case b of (b1, b2, b3) \<Rightarrow>
        (a2 * b3 - a3 * b2, a3 * b1 - a1 * b3, a1 * b2 - a2 * b1))"

text \<open>\<open>np.linalg.norm\<close>\<close>

definition norm3 :: "vertex \<Rightarrow> real" where
  "norm3 a = (case a of (a1, a2, a3) \<Rightarrow> sqrt (a1 * a1 + a2 * a2 + a3 * a3))"

text \<open>\<open>normal / norm\<close>: the division is a fault when the divisor is zero.\<close>

definition np_div :: "vertex \<Rightarrow> real \<Rightarrow> error + vertex" where
  "np_div a s =
     (if s = 0 then Inl FloatingPointError
      else case a of (a1, a2, a3) \<Rightarrow> Inr (a1 / s, a2 / s, a3 / s))"

definition compute_normal :: "vertex \<Rightarrow> vertex \<Rightarrow> vertex \<Rightarrow> error + vertex" where
  "compute_normal v1 v2 v3 =
     (let normal = cross (vsub v2 v1) (vsub v3 v1);
          norm = norm3 normal
      in if norm = 0 then Inr (0, 0, 0) else np_div normal norm)"

definition add_triangle :: "facet list \<Rightarrow> vertex \<Rightarrow> vertex \<Rightarrow> vertex \<Rightarrow> error + facet list" where
  "add_triangle facets v1 v2 v3 =
     and_then (compute_normal v1 v2 v3) (\<lambda>normal. Inr (facets @ [(normal, v1, v2, v3)]))"

section \<open>Binary mesh builder\<close>

text \<open>The two triangles of a cell's top face, then of its bottom face (lines 51 to 65).\<close>

definition top_face ::
  "real \<Rightarrow> real \<Rightarrow> real \<Rightarrow> real \<Rightarrow> real \<Rightarrow> facet list \<Rightarrow> error + facet list" where
  "top_face x0 x1 y0 y1 z_top facets =
     (let top_v0 = (x0, y0, z_top); top_v1 = (x1, y0, z_top);
          top_v2 = (x1, y1, z_top); top_v3 = (x0, y1, z_top)
      in and_then (add_triangle facets top_v0 top_v1 top_v2) (\<lambda>facets.
         add_triangle facets top_v0 top_v2 top_v3))"

definition bottom_face ::
  "real \<Rightarrow> real \<Rightarrow> real \<Rightarrow> real \<Rightarrow> real \<Rightarrow> facet list \<Rightarrow> error + facet list" where
  "bottom_face x0 x1 y0 y1 z_bottom facets =
     (let bot_v0 = (x0, y0, z_bottom); bot_v1 = (x1, y0, z_bottom);
          bot_v2 = (x1, y1, z_bottom); bot_v3 = (x0, y1, z_bottom)
      in and_then (add_triangle facets bot_v2 bot_v1 bot_v0) (\<lambda>facets.
         add_triangle facets bot_v3 bot_v2 bot_v0))"

text \<open>The bodies of the four wall blocks (lines 70 to 75, 78 to 83, 86 to 91, 94 to 99).\<close>

definition left_wall ::
  "real \<Rightarrow> real \<Rightarrow> real \<Rightarrow> real \<Rightarrow> real \<Rightarrow> facet list \<Rightarrow> error + facet list" where
  "left_wall x0 y0 y1 z_top z_bottom facets =
     (let v_top1 = (x0, y0, z_top); v_top2 = (x0, y1, z_top);
          v_bot1 = (x0, y0, z_bottom); v_bot2 = (x0, y1, z_bottom)
      in and_then (add_triangle facets v_top2 v_top1 v_bot1) (\<lambda>facets.
         add_triangle facets v_top2 v_bot1 v_bot2))"

definition right_wall ::
  "real \<Rightarrow> real \<Rightarrow> real \<Rightarrow> real \<Rightarrow> real \<Rightarrow> facet list \<Rightarrow> error + facet list" where
  "right_wall x1 y0 y1 z_top z_bottom facets =
     (let v_top1 = (x1, y0, z_top); v_top2 = (x1, y1, z_top);
          v_bot1 = (x1, y0, z_bottom); v_bot2 = (x1, y1, z_bottom)
      in and_then (add_triangle facets v_top1 v_top2 v_bot1) (\<lambda>facets.
         add_triangle facets v_top2 v_bot2 v_bot1))"

definition top_wall ::
  "real \<Rightarrow> real \<Rightarrow> real \<Rightarrow> real \<Rightarrow> real \<Rightarrow> facet list \<Rightarrow> error + facet list" where
  "top_wall x0 x1 y0 z_top z_bottom facets =
     (let v_top1 = (x0, y0, z_top); v_top2 = (x1, y0, z_top);
          v_bot1 = (x0, y0, z_bottom); v_bot2 = (x1, y0, z_bottom)
      in and_then (add_triangle facets v_top2 v_top1 v_bot1) (\<lambda>facets.
         add_triangle facets v_top2 v_bot1 v_bot2))"

definition bottom_wall ::
  "real \<Rightarrow> real \<Rightarrow> real \<Rightarrow> real \<Rightarrow> real \<Rightarrow> facet list \<Rightarrow> error + facet list" where
  "bottom_wall x0 x1 y1 z_top z_bottom facets =
     (let v_top1 = (x0, y1, z_top); v_top2 = (x1, y1, z_top);
          v_bot1 = (x0, y1, z_bottom); v_bot2 = (x1, y1, z_bottom)
      in and_then (add_triangle facets v_top1 v_top2 v_bot1) (\<lambda>facets.
         add_triangle facets v_top2 v_bot2 v_bot1))"

text \<open>\<open>img_array[j, i] >= threshold\<close>\<close>

definition not_solid :: "grid \<Rightarrow> int \<Rightarrow> nat \<Rightarrow> nat \<Rightarrow> error + bool" where
  "not_solid img_array thr j i = and_then (at2 img_array j i) (\<lambda>p. Inr (thr \<le> int p))"

text \<open>\<open>b or e\<close>: the right operand is evaluated only when the left one is false.\<close>

definition or_else :: "bool \<Rightarrow> error + bool \<Rightarrow> error + bool" where
  "or_else b e = (if b then Inr True else e)"

text \<open>The four wall blocks with their tests (lines 69, 77, 85, 93).\<close>

definition left_block ::
  "grid \<Rightarrow> int \<Rightarrow> nat \<Rightarrow> nat \<Rightarrow> real \<Rightarrow> real \<Rightarrow> real \<Rightarrow> real \<Rightarrow> real \<Rightarrow> facet list
     \<Rightarrow> error + facet list" where
  "left_block img_array thr j i x0 y0 y1 z_top z_bottom facets =
     and_then (or_else (i = 0) (not_solid img_array thr j (i - 1))) (\<lambda>exposed.
       if exposed then left_wall x0 y0 y1 z_top z_bottom facets else Inr facets)"

definition right_block ::
  "grid \<Rightarrow> int \<Rightarrow> nat \<Rightarrow> nat \<Rightarrow> nat \<Rightarrow> real \<Rightarrow> real \<Rightarrow> real \<Rightarrow> real \<Rightarrow> real \<Rightarrow> facet list
     \<Rightarrow> error + facet list" where
  "right_block img_array thr cols j i x1 y0 y1 z_top z_bottom facets =
     and_then (or_else (int i = int cols - 1) (not_solid img_array thr j (i + 1))) (\<lambda>exposed.
       if exposed then right_wall x1 y0 y1 z_top z_bottom facets else Inr facets)"

definition top_block ::
  "grid \<Rightarrow> int \<Rightarrow> nat \<Rightarrow> nat \<Rightarrow> real \<Rightarrow> real \<Rightarrow> real \<Rightarrow> real \<Rightarrow> real \<Rightarrow> facet list
     \<Rightarrow> error + facet list" where
  "top_block img_array thr j i x0 x1 y0 z_top z_bottom facets =
     and_then (or_else (j = 0) (not_solid img_array thr (j - 1) i)) (\<lambda>exposed.
       if exposed then top_wall x0 x1 y0 z_top z_bottom facets else Inr facets)"

definition bottom_block ::
  "grid \<Rightarrow> int \<Rightarrow> nat \<Rightarrow> nat \<Rightarrow> nat \<Rightarrow> real \<Rightarrow> real \<Rightarrow> real \<Rightarrow> real \<Rightarrow> real \<Rightarrow> facet list
     \<Rightarrow> error + facet list" where
  "bottom_block img_array thr rows j i x0 x1 y1 z_top z_bottom facets =
     and_then (or_else (int j = int rows - 1) (not_solid img_array thr (j + 1) i)) (\<lambda>exposed.
       if exposed then bottom_wall x0 x1 y1 z_top z_bottom facets else Inr facets)"

text \<open>The body of the inner loop (lines 42 to 99).\<close>

definition binary_cell ::
  "args \<Rightarrow> grid \<Rightarrow> nat \<Rightarrow> nat \<Rightarrow> real \<Rightarrow> real \<Rightarrow> nat \<Rightarrow> nat \<Rightarrow> facet list \<Rightarrow> error + facet list" where
  "binary_cell a img_array rows cols x_scale y_scale j i facets =
     and_then (at2 img_array j i) (\<lambda>p.
       if int p < threshold a then
         (let x0 = real i * x_scale; x1 = real (i + 1) * x_scale;
              y0 = real j * y_scale; y1 = real (j + 1) * y_scale;
              z_top = extrude_height a; z_bottom = 0
          in and_then (top_face x0 x1 y0 y1 z_top facets) (\<lambda>facets.
             and_then (bottom_face x0 x1 y0 y1 z_bottom facets) (\<lambda>facets.
             and_then (left_block img_array (threshold a) j i x0 y0 y1 z_top z_bottom facets) (\<lambda>facets.
             and_then (right_block img_array (threshold a) cols j i x1 y0 y1 z_top z_bottom facets) (\<lambda>facets.
             and_then (top_block img_array (threshold a) j i x0 x1 y0 z_top z_bottom facets) (\<lambda>facets.
             bottom_block img_array (threshold a) rows j i x0 x1 y1 z_top z_bottom facets))))))
       else Inr facets)"

definition generate_binary_mesh :: "args \<Rightarrow> grid \<Rightarrow> error + facet list" where
  "generate_binary_mesh a img_array =
     (let facets = [];
          (rows, cols) = shape img_array
      in and_then (py_div (x_size a) (int cols)) (\<lambda>x_scale.
         and_then (py_div (y_size a) (int rows)) (\<lambda>y_scale.
         for_loop [0..<rows] (\<lambda>j.
           for_loop [0..<cols] (\<lambda>i.
             binary_cell a img_array rows cols x_scale y_scale j i)) facets)))"

section \<open>Continuous mesh builder\<close>

text \<open>\<open>z_array = (img_array / 255.0) * args.extrude_height\<close>, elementwise.\<close>

definition z_array_of :: "args \<Rightarrow> grid \<Rightarrow> real list list" where
  "z_array_of a img_array = map (map (\<lambda>p. real p / 255 * extrude_height a)) img_array"

text \<open>
  \<open>np.empty((rows, cols, 3))\<close>: an array of that shape whose contents are arbitrary; the
  fill loop assigns every entry before any is read.
\<close>

definition np_empty :: "nat \<Rightarrow> nat \<Rightarrow> vertex list list" where
  "np_empty rows cols = replicate rows (replicate cols (0, 0, 0))"

definition fill_top_vertices ::
  "nat \<Rightarrow> nat \<Rightarrow> real \<Rightarrow> real \<Rightarrow> real list list \<Rightarrow> error + vertex list list" where
  "fill_top_vertices rows cols x_scale y_scale z_array =
     for_loop [0..<rows] (\<lambda>j.
       for_loop [0..<cols] (\<lambda>i top_vertices.
         (let x = real i * x_scale; y = real j * y_scale
          in and_then (at2 z_array j i) (\<lambda>z. set2 top_vertices j i (x, y, z)))))
       (np_empty rows cols)"

definition top_surface ::
  "nat \<Rightarrow> nat \<Rightarrow> vertex list list \<Rightarrow> facet list \<Rightarrow> error + facet list" where
  "top_surface rows cols top_vertices facets =
     for_loop [0..<rows - 1] (\<lambda>j.
       for_loop [0..<cols - 1] (\<lambda>i facets.
         and_then (at2 top_vertices j i) (\<lambda>v1.
         and_then (at2 top_vertices j (i + 1)) (\<lambda>v2.
         and_then (at2 top_vertices (j + 1) i) (\<lambda>v3.
         and_then (at2 top_vertices (j + 1) (i + 1)) (\<lambda>v4.
         and_then (add_triangle facets v1 v2 v3) (\<lambda>facets.
         add_triangle facets v2 v4 v3))))))) facets"

definition base_face :: "args \<Rightarrow> facet list \<Rightarrow> error + facet list" where
  "base_face a facets =
     (let bottom_top_left = (0, 0, 0);
          bottom_top_right = (x_size a, 0, 0);
          bottom_bottom_left = (0, y_size a, 0);
          bottom_bottom_right = (x_size a, y_size a, 0)
      in and_then (add_triangle facets bottom_top_left bottom_top_right bottom_bottom_left) (\<lambda>facets.
         add_triangle facets bottom_top_right bottom_bottom_right bottom_bottom_left))"

text \<open>\<open>(v[0], v[1], 0.0)\<close>\<close>

definition ground :: "vertex \<Rightarrow> vertex" where
  "ground v = (fst v, fst (snd v), 0)"

text \<open>The four boundary loops (lines 144 to 151, 153 to 160, 162 to 169, 171 to 178).\<close>

definition top_edge :: "nat \<Rightarrow> vertex list list \<Rightarrow> facet list \<Rightarrow> error + facet list" where
  "top_edge cols top_vertices facets =
     (let j = 0
      in for_loop [0..<cols - 1] (\<lambda>i facets.
           and_then (at2 top_vertices j i) (\<lambda>v_top1.
           and_then (at2 top_vertices j (i + 1)) (\<lambda>v_top2.
           (let v_bot1 = ground v_top1; v_bot2 = ground v_top2
            in and_then (add_triangle facets v_top1 v_top2 v_bot1) (\<lambda>facets.
               add_triangle facets v_top2 v_bot2 v_bot1))))) facets)"

definition bottom_edge :: "nat \<Rightarrow> nat \<Rightarrow> vertex list list \<Rightarrow> facet list \<Rightarrow> error + facet list" where
  "bottom_edge rows cols top_vertices facets =
     (let j = rows - 1
      in for_loop [0..<cols - 1] (\<lambda>i facets.
           and_then (at2 top_vertices j i) (\<lambda>v_top1.
           and_then (at2 top_vertices j (i + 1)) (\<lambda>v_top2.
           (let v_bot1 = ground v_top1; v_bot2 = ground v_top2
            in and_then (add_triangle facets v_top2 v_top1 v_bot1) (\<lambda>facets.
               add_triangle facets v_top2 v_bot1 v_bot2))))) facets)"

definition left_edge :: "nat \<Rightarrow> vertex list list \<Rightarrow> facet list \<Rightarrow> error + facet list" where
  "left_edge rows top_vertices facets =
     (let i = 0
      in for_loop [0..<rows - 1] (\<lambda>j facets.
           and_then (at2 top_vertices j i) (\<lambda>v_top1.
           and_then (at2 top_vertices (j + 1) i) (\<lambda>v_top2.
           (let v_bot1 = ground v_top1; v_bot2 = ground v_top2
            in and_then (add_triangle facets v_top2 v_top1 v_bot1) (\<lambda>facets.
               add_triangle facets v_top2 v_bot1 v_bot2))))) facets)"

definition right_edge :: "nat \<Rightarrow> nat \<Rightarrow> vertex list list \<Rightarrow> facet list \<Rightarrow> error + facet list" where
  "right_edge rows cols top_vertices facets =
     (let i = cols - 1
      in for_loop [0..<rows - 1] (\<lambda>j facets.
           and_then (at2 top_vertices j i) (\<lambda>v_top1.
           and_then (at2 top_vertices (j + 1) i) (\<lambda>v_top2.
           (let v_bot1 = ground v_top1; v_bot2 = ground v_top2
            in and_then (add_triangle facets v_top1 v_top2 v_bot1) (\<lambda>facets.
               add_triangle facets v_top2 v_bot2 v_bot1))))) facets)"

definition generate_continuous_mesh :: "args \<Rightarrow> grid \<Rightarrow> error + facet list" where
  "generate_continuous_mesh a img_array =
     (let (rows, cols) = shape img_array
      in and_then (py_div (x_size a) (int cols - 1)) (\<lambda>x_scale.
         and_then (py_div (y_size a) (int rows - 1)) (\<lambda>y_scale.
         (let z_array = z_array_of a img_array
          in and_then (fill_top_vertices rows cols x_scale y_scale z_array) (\<lambda>top_vertices.
             (let facets = []
              in and_then (top_surface rows cols top_vertices facets) (\<lambda>facets.
                 and_then (base_face a facets) (\<lambda>facets.
                 and_then (top_edge cols top_vertices facets) (\<lambda>facets.
                 and_then (bottom_edge rows cols top_vertices facets) (\<lambda>facets.
                 and_then (left_edge rows top_vertices facets) (\<lambda>facets.
                 right_edge rows cols top_vertices facets)))))))))))"

text \<open>\<open>main\<close> runs exactly one builder, chosen by \<open>args.binary\<close>.\<close>

definition build_mesh :: "args \<Rightarrow> grid \<Rightarrow> error + facet list" where
  "build_mesh a img_array =
     (if binary a then generate_binary_mesh a img_array
      else generate_continuous_mesh a img_array)"

section \<open>The emitted triangles as lists\<close>

definition normal_of :: "vertex \<Rightarrow> vertex \<Rightarrow> vertex \<Rightarrow> vertex" where
  "normal_of v1 v2 v3 =
     (let n = cross (vsub v2 v1) (vsub v3 v1); m = norm3 n
      in if m = 0 then (0, 0, 0) else (case n of (a, b, c) \<Rightarrow> (a / m, b / m, c / m)))"

definition tri :: "vertex \<Rightarrow> vertex \<Rightarrow> vertex \<Rightarrow> facet" where
  "tri v1 v2 v3 = (normal_of v1 v2 v3, v1, v2, v3)"

definition top_tris :: "real \<Rightarrow> real \<Rightarrow> real \<Rightarrow> real \<Rightarrow> real \<Rightarrow> facet list" where
  "top_tris x0 x1 y0 y1 zt =
     [tri (x0, y0, zt) (x1, y0, zt) (x1, y1, zt), tri (x0, y0, zt) (x1, y1, zt) (x0, y1, zt)]"

definition bottom_tris :: "real \<Rightarrow> real \<Rightarrow> real \<Rightarrow> real \<Rightarrow> real \<Rightarrow> facet list" where
  "bottom_tris x0 x1 y0 y1 zb =
     [tri (x1, y1, zb) (x1, y0, zb) (x0, y0, zb), tri (x0, y1, zb) (x1, y1, zb) (x0, y0, zb)]"

datatype direction = Leftward | Rightward | Upward | Downward

fun wall_tris :: "direction \<Rightarrow> real \<Rightarrow> real \<Rightarrow> real \<Rightarrow> real \<Rightarrow> real \<Rightarrow> real \<Rightarrow> facet list" where
  "wall_tris Leftward x0 x1 y0 y1 zt zb =
     [tri (x0, y1, zt) (x0, y0, zt) (x0, y0, zb), tri (x0, y1, zt) (x0, y0, zb) (x0, y1, zb)]"
| "wall_tris Rightward x0 x1 y0 y1 zt zb =
     [tri (x1, y0, zt) (x1, y1, zt) (x1, y0, zb), tri (x1, y1, zt) (x1, y1, zb) (x1, y0, zb)]"
| "wall_tris Upward x0 x1 y0 y1 zt zb =
     [tri (x1, y0, zt) (x0, y0, zt) (x0, y0, zb), tri (x1, y0, zt) (x0, y0, zb) (x1, y0, zb)]"
| "wall_tris Downward x0 x1 y0 y1 zt zb =
     [tri (x0, y1, zt) (x1, y1, zt) (x0, y1, zb), tri (x1, y1, zt) (x1, y1, zb) (x0, y1, zb)]"

fun neighbour :: "direction \<Rightarrow> int \<times> int \<Rightarrow> int \<times> int" where
  "neighbour Leftward (row, col) = (row, col - 1)"
| "neighbour Rightward (row, col) = (row, col + 1)"
| "neighbour Upward (row, col) = (row - 1, col)"
| "neighbour Downward (row, col) = (row + 1, col)"

definition in_grid :: "grid \<Rightarrow> int \<times> int \<Rightarrow> bool" where
  "in_grid img c =
     (case c of (row, col) \<Rightarrow>
        0 \<le> row \<and> row < int (fst (shape img)) \<and> 0 \<le> col \<and> col < int (snd (shape img)))"

definition solid :: "int \<Rightarrow> grid \<Rightarrow> int \<times> int \<Rightarrow> bool" where
  "solid thr img c = (case c of (row, col) \<Rightarrow> int (img ! nat row ! nat col) < thr)"

definition is_exposed :: "int \<Rightarrow> grid \<Rightarrow> nat \<Rightarrow> nat \<Rightarrow> direction \<Rightarrow> bool" where
  "is_exposed thr img row col d =
     (let n = neighbour d (int row, int col) in \<not> in_grid img n \<or> \<not> solid thr img n)"

definition cell_walls ::
  "int \<Rightarrow> grid \<Rightarrow> nat \<Rightarrow> nat \<Rightarrow> real \<Rightarrow> real \<Rightarrow> real \<Rightarrow> real \<Rightarrow> real \<Rightarrow> real \<Rightarrow> facet list" where
  "cell_walls thr img row col x0 x1 y0 y1 zt zb =
     concat (map (\<lambda>d. if is_exposed thr img row col d then wall_tris d x0 x1 y0 y1 zt zb else [])
       [Leftward, Rightward, Upward, Downward])"

definition cell_tris :: "args \<Rightarrow> grid \<Rightarrow> real \<Rightarrow> real \<Rightarrow> nat \<Rightarrow> nat \<Rightarrow> facet list" where
  "cell_tris a img x_scale y_scale j i =
     (if int (img ! j ! i) < threshold a then
        (let x0 = real i * x_scale; x1 = real (i + 1) * x_scale;
             y0 = real j * y_scale; y1 = real (j + 1) * y_scale
         in top_tris x0 x1 y0 y1 (extrude_height a) @ bottom_tris x0 x1 y0 y1 0
            @ cell_walls (threshold a) img j i x0 x1 y0 y1 (extrude_height a) 0)
      else [])"

definition binary_tris :: "args \<Rightarrow> grid \<Rightarrow> facet list" where
  "binary_tris a img =
     (let (rows, cols) = shape img;
          x_scale = x_size a / real cols; y_scale = y_size a / real rows
      in concat (map (\<lambda>j. concat (map (\<lambda>i. cell_tris a img x_scale y_scale j i) [0..<cols]))
           [0..<rows]))"

definition all_directions :: "direction list" where
  "all_directions = [Leftward, Rightward, Upward, Downward]"

definition wall_count :: "int \<Rightarrow> grid \<Rightarrow> nat \<Rightarrow> nat \<Rightarrow> nat" where
  "wall_count thr img row col = length (filter (is_exposed thr img row col) all_directions)"

definition consistent :: "facet list \<Rightarrow> bool" where
  "consistent fs = (\<forall>f \<in> set fs. case f of (n, v1, v2, v3) \<Rightarrow> compute_normal v1 v2 v3 = Inr n)"

definition keeps :: "(facet list \<Rightarrow> error + facet list) \<Rightarrow> bool" where
  "keeps f = (\<forall>fs fs'. consistent fs \<and> f fs = Inr fs' \<longrightarrow> consistent fs')"

definition solid_3x3 :: grid where
  "solid_3x3 = [[0, 0, 0], [0, 0, 0], [0, 0, 0]]"

definition top_vertex :: "args \<Rightarrow> grid \<Rightarrow> real \<Rightarrow> real \<Rightarrow> nat \<Rightarrow> nat \<Rightarrow> vertex" where
  "top_vertex a img x_scale y_scale j i =
     (real i * x_scale, real j * y_scale, real (img ! j ! i) / 255 * extrude_height a)"

definition quad_tris :: "(nat \<Rightarrow> nat \<Rightarrow> vertex) \<Rightarrow> nat \<Rightarrow> nat \<Rightarrow> facet list" where
  "quad_tris v j i =
     [tri (v j i) (v j (i + 1)) (v (j + 1) i), tri (v j (i + 1)) (v (j + 1) (i + 1)) (v (j + 1) i)]"

definition surface_tris :: "nat \<Rightarrow> nat \<Rightarrow> (nat \<Rightarrow> nat \<Rightarrow> vertex) \<Rightarrow> facet list" where
  "surface_tris rows cols v =
     concat (map (\<lambda>j. concat (map (\<lambda>i. quad_tris v j i) [0..<cols - 1])) [0..<rows - 1])"

definition base_tris :: "args \<Rightarrow> facet list" where
  "base_tris a =
     [tri (0, 0, 0) (x_size a, 0, 0) (0, y_size a, 0),
      tri (x_size a, 0, 0) (x_size a, y_size a, 0) (0, y_size a, 0)]"

definition forward_tris :: "vertex \<Rightarrow> vertex \<Rightarrow> facet list" where
  "forward_tris v_top1 v_top2 =
     [tri v_top1 v_top2 (ground v_top1), tri v_top2 (ground v_top2) (ground v_top1)]"

definition backward_tris :: "vertex \<Rightarrow> vertex \<Rightarrow> facet list" where
  "backward_tris v_top1 v_top2 =
     [tri v_top2 v_top1 (ground v_top1), tri v_top2 (ground v_top1) (ground v_top2)]"

definition top_edge_tris :: "nat \<Rightarrow> (nat \<Rightarrow> nat \<Rightarrow> vertex) \<Rightarrow> facet list" where
  "top_edge_tris cols v = concat (map (\<lambda>i. forward_tris (v 0 i) (v 0 (i + 1))) [0..<cols - 1])"

definition bottom_edge_tris :: "nat \<Rightarrow> nat \<Rightarrow> (nat \<Rightarrow> nat \<Rightarrow> vertex) \<Rightarrow> facet list" where
  "bottom_edge_tris rows cols v =
     concat (map (\<lambda>i. backward_tris (v (rows - 1) i) (v (rows - 1) (i + 1))) [0..<cols - 1])"

definition left_edge_tris :: "nat \<Rightarrow> (nat \<Rightarrow> nat \<Rightarrow> vertex) \<Rightarrow> facet list" where
  "left_edge_tris rows v = concat (map (\<lambda>j. backward_tris (v j 0) (v (j + 1) 0)) [0..<rows - 1])"

definition right_edge_tris :: "nat \<Rightarrow> nat \<Rightarrow> (nat \<Rightarrow> nat \<Rightarrow> vertex) \<Rightarrow> facet list" where
  "right_edge_tris rows cols v =
     concat (map (\<lambda>j. forward_tris (v j (cols - 1)) (v (j + 1) (cols - 1))) [0..<rows - 1])"

definition continuous_tris :: "args \<Rightarrow> grid \<Rightarrow> facet list" where
  "continuous_tris a img =
     (let (rows, cols) = shape img;
          v = top_vertex a img (x_size a / real_of_int (int cols - 1))
                (y_size a / real_of_int (int rows - 1))
      in surface_tris rows cols v @ base_tris a @ top_edge_tris cols v
         @ bottom_edge_tris rows cols v @ left_edge_tris rows v @ right_edge_tris rows cols v)"

section \<open>Edges of a mesh\<close>





definition triangle_of :: "facet \<Rightarrow> vertex \<times> vertex \<times> vertex" where
  "triangle_of f = (case f of (n, v1, v2, v3) \<Rightarrow> (v1, v2, v3))"







section \<open>The meshes on the integer lattice\<close>























section \<open>The normal computation\<close>

lemma norm3_zero_iff: "norm3 v = 0 \<longleftrightarrow> v = (0, 0, 0)"
proof (cases v)
  case (fields a b c)
  have "a * a + b * b + c * c = 0 \<longleftrightarrow> a = 0 \<and> b = 0 \<and> c = 0"
    by (metis add_nonneg_eq_0_iff add_nonneg_nonneg mult_eq_0_iff zero_le_square)
  with fields show ?thesis
    by (simp add: norm3_def)
qed

text \<open>
  C7. When the cross product of the two edge vectors has zero magnitude,
  \<open>compute_normal\<close> returns the zero vector, and no input at all makes it fail: the
  division is reached only with a divisor that is not zero.
\<close>

theorem compute_normal_degenerate:
  "(norm3 (cross (vsub v2 v1) (vsub v3 v1)) = 0 \<longrightarrow> compute_normal v1 v2 v3 = Inr (0, 0, 0))
   \<and> (\<forall>e. compute_normal v1 v2 v3 \<noteq> Inl e)"
  by (cases "cross (vsub v2 v1) (vsub v3 v1)")
     (simp add: compute_normal_def np_div_def Let_def)

theorem compute_normal_degenerate_witness:
  "norm3 (cross (vsub (1, 1, 1) (0, 0, 0)) (vsub (2, 2, 2) (0, 0, 0))) = 0
   \<and> compute_normal (0, 0, 0) (1, 1, 1) (2, 2, 2) = Inr (0, 0, 0)"
  using compute_normal_degenerate [of "(1, 1, 1)" "(0, 0, 0)" "(2, 2, 2)"]
  by (simp add: norm3_def cross_def vsub_def)

section \<open>The builders append triangles\<close>

lemma compute_normal_eq: "compute_normal v1 v2 v3 = Inr (normal_of v1 v2 v3)"
  by (cases "cross (vsub v2 v1) (vsub v3 v1)")
     (simp add: compute_normal_def normal_of_def np_div_def Let_def)

lemma add_triangle_eq: "add_triangle facets v1 v2 v3 = Inr (facets @ [tri v1 v2 v3])"
  by (simp add: add_triangle_def compute_normal_eq and_then_def tri_def)

lemma and_then_Inr [simp]: "and_then (Inr x) f = f x"
  by (simp add: and_then_def)

lemma and_then_Inl [simp]: "and_then (Inl e) f = Inl e"
  by (simp add: and_then_def)

lemma for_loop_append: "for_loop (ks @ ls) body s = and_then (for_loop ks body s) (for_loop ls body)"
proof (induction ks arbitrary: s)
  case Nil
  show ?case by simp
next
  case (Cons k ks)
  show ?case
    by (cases "body k s") (simp_all add: Cons.IH)
qed

lemma for_loop_emit:
  assumes "\<And>k s. k \<in> set ks \<Longrightarrow> body k s = Inr (s @ f k)"
  shows "for_loop ks body s = Inr (s @ concat (map f ks))"
  using assms
proof (induction ks arbitrary: s)
  case Nil
  show ?case by simp
next
  case (Cons k ks)
  have "body k s = Inr (s @ f k)"
    using Cons.prems by simp
  moreover have "for_loop ks body (s @ f k) = Inr ((s @ f k) @ concat (map f ks))"
    using Cons.prems by (intro Cons.IH) simp
  ultimately show ?case by simp
qed

lemma top_face_eq: "top_face x0 x1 y0 y1 zt facets = Inr (facets @ top_tris x0 x1 y0 y1 zt)"
  by (simp add: top_face_def top_tris_def add_triangle_eq Let_def)

lemma bottom_face_eq: "bottom_face x0 x1 y0 y1 zb facets = Inr (facets @ bottom_tris x0 x1 y0 y1 zb)"
  by (simp add: bottom_face_def bottom_tris_def add_triangle_eq Let_def)

lemma left_wall_eq:
  "left_wall x0 y0 y1 zt zb facets = Inr (facets @ wall_tris Leftward x0 x1 y0 y1 zt zb)"
  by (simp add: left_wall_def add_triangle_eq Let_def)

lemma right_wall_eq:
  "right_wall x1 y0 y1 zt zb facets = Inr (facets @ wall_tris Rightward x0 x1 y0 y1 zt zb)"
  by (simp add: right_wall_def add_triangle_eq Let_def)

lemma top_wall_eq:
  "top_wall x0 x1 y0 zt zb facets = Inr (facets @ wall_tris Upward x0 x1 y0 y1 zt zb)"
  by (simp add: top_wall_def add_triangle_eq Let_def)

lemma bottom_wall_eq:
  "bottom_wall x0 x1 y1 zt zb facets = Inr (facets @ wall_tris Downward x0 x1 y0 y1 zt zb)"
  by (simp add: bottom_wall_def add_triangle_eq Let_def)

lemma shape_rows: "shape img = (rows, cols) \<Longrightarrow> length img = rows"
  by (simp add: shape_def)

lemma rectangular_row:
  "rectangular img \<Longrightarrow> shape img = (rows, cols) \<Longrightarrow> j < rows \<Longrightarrow> length (img ! j) = cols"
  by (auto simp: rectangular_def shape_def)

lemma at2_in_range:
  "rectangular img \<Longrightarrow> shape img = (rows, cols) \<Longrightarrow> j < rows \<Longrightarrow> i < cols
     \<Longrightarrow> at2 img j i = Inr (img ! j ! i)"
  using rectangular_row [of img rows cols j] by (simp add: at2_def shape_rows)

lemma left_exposed_eq:
  assumes "rectangular img" "shape img = (rows, cols)" "j < rows" "i < cols"
  shows "or_else (i = 0) (not_solid img thr j (i - 1)) = Inr (is_exposed thr img j i Leftward)"
proof (cases "i = 0")
  case True
  then show ?thesis
    by (simp add: or_else_def is_exposed_def in_grid_def)
next
  case False
  then have "at2 img j (i - 1) = Inr (img ! j ! (i - 1))"
    using assms by (intro at2_in_range [of img rows cols]) simp_all
  with False assms show ?thesis
    by (auto simp: or_else_def not_solid_def is_exposed_def in_grid_def solid_def nat_diff_distrib')
qed

lemma right_exposed_eq:
  assumes "rectangular img" "shape img = (rows, cols)" "j < rows" "i < cols"
  shows "or_else (int i = int cols - 1) (not_solid img thr j (i + 1))
         = Inr (is_exposed thr img j i Rightward)"
proof (cases "int i = int cols - 1")
  case True
  with assms show ?thesis
    by (simp add: or_else_def is_exposed_def in_grid_def)
next
  case False
  then have "i + 1 < cols"
    using assms by linarith
  then have "at2 img j (i + 1) = Inr (img ! j ! (i + 1))"
    using assms by (intro at2_in_range [of img rows cols]) simp_all
  with False assms \<open>i + 1 < cols\<close> show ?thesis
    by (auto simp: or_else_def not_solid_def is_exposed_def in_grid_def solid_def nat_add_distrib)
qed

lemma top_exposed_eq:
  assumes "rectangular img" "shape img = (rows, cols)" "j < rows" "i < cols"
  shows "or_else (j = 0) (not_solid img thr (j - 1) i) = Inr (is_exposed thr img j i Upward)"
proof (cases "j = 0")
  case True
  then show ?thesis
    by (simp add: or_else_def is_exposed_def in_grid_def)
next
  case False
  then have "at2 img (j - 1) i = Inr (img ! (j - 1) ! i)"
    using assms by (intro at2_in_range [of img rows cols]) simp_all
  with False assms show ?thesis
    by (auto simp: or_else_def not_solid_def is_exposed_def in_grid_def solid_def nat_diff_distrib')
qed

lemma bottom_exposed_eq:
  assumes "rectangular img" "shape img = (rows, cols)" "j < rows" "i < cols"
  shows "or_else (int j = int rows - 1) (not_solid img thr (j + 1) i)
         = Inr (is_exposed thr img j i Downward)"
proof (cases "int j = int rows - 1")
  case True
  with assms show ?thesis
    by (simp add: or_else_def is_exposed_def in_grid_def)
next
  case False
  then have "j + 1 < rows"
    using assms by linarith
  then have "at2 img (j + 1) i = Inr (img ! (j + 1) ! i)"
    using assms by (intro at2_in_range [of img rows cols]) simp_all
  with False assms \<open>j + 1 < rows\<close> show ?thesis
    by (auto simp: or_else_def not_solid_def is_exposed_def in_grid_def solid_def nat_add_distrib)
qed

lemma left_block_eq:
  assumes "rectangular img" "shape img = (rows, cols)" "j < rows" "i < cols"
  shows "left_block img thr j i x0 y0 y1 zt zb facets
         = Inr (facets @ (if is_exposed thr img j i Leftward
                          then wall_tris Leftward x0 x1 y0 y1 zt zb else []))"
  unfolding left_block_def left_exposed_eq [OF assms] and_then_Inr
  by (simp add: left_wall_eq [of x0 y0 y1 zt zb facets x1])

lemma right_block_eq:
  assumes "rectangular img" "shape img = (rows, cols)" "j < rows" "i < cols"
  shows "right_block img thr cols j i x1 y0 y1 zt zb facets
         = Inr (facets @ (if is_exposed thr img j i Rightward
                          then wall_tris Rightward x0 x1 y0 y1 zt zb else []))"
  unfolding right_block_def right_exposed_eq [OF assms] and_then_Inr
  by (simp add: right_wall_eq [of x1 y0 y1 zt zb facets x0])

lemma top_block_eq:
  assumes "rectangular img" "shape img = (rows, cols)" "j < rows" "i < cols"
  shows "top_block img thr j i x0 x1 y0 zt zb facets
         = Inr (facets @ (if is_exposed thr img j i Upward
                          then wall_tris Upward x0 x1 y0 y1 zt zb else []))"
  unfolding top_block_def top_exposed_eq [OF assms] and_then_Inr
  by (simp add: top_wall_eq [of x0 x1 y0 zt zb facets y1])

lemma bottom_block_eq:
  assumes "rectangular img" "shape img = (rows, cols)" "j < rows" "i < cols"
  shows "bottom_block img thr rows j i x0 x1 y1 zt zb facets
         = Inr (facets @ (if is_exposed thr img j i Downward
                          then wall_tris Downward x0 x1 y0 y1 zt zb else []))"
  unfolding bottom_block_def bottom_exposed_eq [OF assms] and_then_Inr
  by (simp add: bottom_wall_eq [of x0 x1 y1 zt zb facets y0])

lemma binary_cell_eq:
  assumes "rectangular img" "shape img = (rows, cols)" "j < rows" "i < cols"
  shows "binary_cell a img rows cols x_scale y_scale j i facets
         = Inr (facets @ cell_tris a img x_scale y_scale j i)"
proof (cases "int (img ! j ! i) < threshold a")
  case False
  with assms show ?thesis
    by (simp add: binary_cell_def cell_tris_def at2_in_range [of img rows cols])
next
  case True
  define x0 x1 y0 y1 where "x0 = real i * x_scale" and "x1 = real (i + 1) * x_scale"
    and "y0 = real j * y_scale" and "y1 = real (j + 1) * y_scale"
  note geo = x0_def x1_def y0_def y1_def
  have "binary_cell a img rows cols x_scale y_scale j i facets
        = and_then (top_face x0 x1 y0 y1 (extrude_height a) facets) (\<lambda>facets.
          and_then (bottom_face x0 x1 y0 y1 0 facets) (\<lambda>facets.
          and_then (left_block img (threshold a) j i x0 y0 y1 (extrude_height a) 0 facets) (\<lambda>facets.
          and_then (right_block img (threshold a) cols j i x1 y0 y1 (extrude_height a) 0 facets) (\<lambda>facets.
          and_then (top_block img (threshold a) j i x0 x1 y0 (extrude_height a) 0 facets) (\<lambda>facets.
          bottom_block img (threshold a) rows j i x0 x1 y1 (extrude_height a) 0 facets)))))"
    using True assms
    unfolding binary_cell_def Let_def geo
    by (simp only: at2_in_range [of img rows cols] and_then_Inr if_True)
  also have "\<dots> = Inr (facets @ top_tris x0 x1 y0 y1 (extrude_height a) @ bottom_tris x0 x1 y0 y1 0
                @ cell_walls (threshold a) img j i x0 x1 y0 y1 (extrude_height a) 0)"
    by (simp add: top_face_eq bottom_face_eq cell_walls_def
        left_block_eq [OF assms, where ?x1.0 = x1] right_block_eq [OF assms, where ?x0.0 = x0]
        top_block_eq [OF assms, where ?y1.0 = y1] bottom_block_eq [OF assms, where ?y0.0 = y0])
  also have "\<dots> = Inr (facets @ cell_tris a img x_scale y_scale j i)"
    using True unfolding cell_tris_def Let_def geo by (simp only: if_True)
  finally show ?thesis .
qed

lemma generate_binary_mesh_eq:
  assumes "rectangular img" "shape img = (rows, cols)" "0 < rows" "0 < cols"
  shows "generate_binary_mesh a img = Inr (binary_tris a img)"
proof -
  let ?xs = "x_size a / real cols" and ?ys = "y_size a / real rows"
  have inner: "for_loop [0..<cols] (\<lambda>i. binary_cell a img rows cols ?xs ?ys j i) s
               = Inr (s @ concat (map (\<lambda>i. cell_tris a img ?xs ?ys j i) [0..<cols]))"
    if "j < rows" for j s
    using assms that by (intro for_loop_emit binary_cell_eq) simp_all
  have "for_loop [0..<rows] (\<lambda>j. for_loop [0..<cols] (\<lambda>i. binary_cell a img rows cols ?xs ?ys j i)) []
        = Inr ([] @ concat (map (\<lambda>j. concat (map (\<lambda>i. cell_tris a img ?xs ?ys j i) [0..<cols])) [0..<rows]))"
    by (intro for_loop_emit inner) simp
  with assms show ?thesis
    by (simp add: generate_binary_mesh_def binary_tris_def py_div_def)
qed

section \<open>Binary mode: solidity and the empty mesh\<close>

lemma length_wall_tris: "length (wall_tris d x0 x1 y0 y1 zt zb) = 2"
  by (cases d) simp_all

lemma length_cell_walls:
  "length (cell_walls thr img j i x0 x1 y0 y1 zt zb)
   = 2 * length (filter (is_exposed thr img j i) [Leftward, Rightward, Upward, Downward])"
  by (simp add: cell_walls_def length_wall_tris)

lemma cell_tris_empty_iff:
  "cell_tris a img x_scale y_scale j i = [] \<longleftrightarrow> \<not> int (img ! j ! i) < threshold a"
  by (simp add: cell_tris_def top_tris_def Let_def)

lemma cell_tris_length_iff:
  "4 \<le> length (cell_tris a img x_scale y_scale j i) \<longleftrightarrow> int (img ! j ! i) < threshold a"
  by (simp add: cell_tris_def top_tris_def bottom_tris_def Let_def)

lemma binary_cell_contribution:
  assumes "rectangular img" "shape img = (rows, cols)" "j < rows" "i < cols"
  shows "\<exists>fs. binary_cell a img rows cols x_scale y_scale j i facets = Inr (facets @ fs)
           \<and> (fs = [] \<longleftrightarrow> \<not> int (img ! j ! i) < threshold a)
           \<and> (4 \<le> length fs \<longleftrightarrow> int (img ! j ! i) < threshold a)"
  using binary_cell_eq [OF assms] cell_tris_empty_iff cell_tris_length_iff by blast

lemma shape_1x1: "shape [[p]] = (1, 1)"
  by (simp add: shape_def)

lemma rectangular_1x1: "rectangular [[p]]"
  by (simp add: rectangular_def shape_def)

lemma binary_tris_empty:
  assumes "shape img = (rows, cols)"
    and "\<forall>j<rows. \<forall>i<cols. threshold a \<le> int (img ! j ! i)"
  shows "binary_tris a img = []"
  using assms by (simp add: binary_tris_def cell_tris_def Let_def not_less [symmetric])

text \<open>
  C10. On a grid with at least one row and one column in which no pixel is below the
  threshold, the binary builder returns the empty mesh and raises nothing.
\<close>

theorem binary_no_solid_cell_empty:
  assumes "rectangular img" "shape img = (rows, cols)" "0 < rows" "0 < cols"
    and "\<forall>j<rows. \<forall>i<cols. threshold a \<le> int (img ! j ! i)"
  shows "generate_binary_mesh a img = Inr []"
  using generate_binary_mesh_eq [OF assms(1-4)] binary_tris_empty [OF assms(2,5)] by simp

theorem binary_no_solid_cell_empty_witness:
  "rectangular [[128, 200], [255, 128 :: nat]] \<and> shape [[128, 200], [255, 128 :: nat]] = (2, 2)
   \<and> list_all (list_all (\<lambda>p. threshold default_args \<le> int p)) [[128, 200], [255, 128]]
   \<and> generate_binary_mesh default_args [[128, 200], [255, 128]] = Inr []"
proof -
  have r: "rectangular [[128, 200], [255, 128 :: nat]]"
    by (simp add: rectangular_def shape_def)
  have s: "shape [[128, 200], [255, 128 :: nat]] = (2, 2)"
    by (simp add: shape_def)
  have p: "\<forall>j<2. \<forall>i<2. threshold default_args \<le> int ([[128, 200], [255, 128]] ! j ! i)"
    by (simp add: default_args_def less_Suc_eq numeral_2_eq_2 all_conj_distrib)
  show ?thesis
    using binary_no_solid_cell_empty [OF r s _ _ p] r s by (simp add: default_args_def)
qed

section \<open>Binary mode: the exposure test\<close>

lemma is_exposed_Leftward:
  "is_exposed thr img j i Leftward
   \<longleftrightarrow> i = 0 \<or> \<not> j < fst (shape img) \<or> \<not> i - 1 < snd (shape img) \<or> \<not> int (img ! j ! (i - 1)) < thr"
  by (cases "i = 0") (auto simp: is_exposed_def in_grid_def solid_def nat_diff_distrib')

lemma is_exposed_Rightward:
  "is_exposed thr img j i Rightward
   \<longleftrightarrow> \<not> j < fst (shape img) \<or> \<not> i + 1 < snd (shape img) \<or> \<not> int (img ! j ! (i + 1)) < thr"
  by (auto simp: is_exposed_def in_grid_def solid_def nat_add_distrib)

lemma is_exposed_Upward:
  "is_exposed thr img j i Upward
   \<longleftrightarrow> j = 0 \<or> \<not> j - 1 < fst (shape img) \<or> \<not> i < snd (shape img) \<or> \<not> int (img ! (j - 1) ! i) < thr"
  by (cases "j = 0") (auto simp: is_exposed_def in_grid_def solid_def nat_diff_distrib')

lemma is_exposed_Downward:
  "is_exposed thr img j i Downward
   \<longleftrightarrow> \<not> j + 1 < fst (shape img) \<or> \<not> i < snd (shape img) \<or> \<not> int (img ! (j + 1) ! i) < thr"
  by (auto simp: is_exposed_def in_grid_def solid_def nat_add_distrib)

lemma wall_count_conv:
  "wall_count thr img j i
   = (if is_exposed thr img j i Leftward then 1 else 0)
     + (if is_exposed thr img j i Rightward then 1 else 0)
     + (if is_exposed thr img j i Upward then 1 else 0)
     + (if is_exposed thr img j i Downward then 1 else 0)"
  by (simp add: wall_count_def all_directions_def)

lemma wall_count_3x3:
  assumes "shape img = (3, 3)" "\<forall>r<3. \<forall>c<3. int (img ! r ! c) < thr" "j < 3" "i < 3"
  shows "wall_count thr img j i = (if j = 1 \<and> i = 1 then 0 else if j \<noteq> 1 \<and> i \<noteq> 1 then 2 else 1)"
proof -
  have below: "int (img ! r ! c) < thr" if "r < 3" "c < 3" for r c
    using assms(2) that by blast
  have l: "is_exposed thr img j i Leftward \<longleftrightarrow> i = 0"
  proof (cases "i = 0")
    case True
    then show ?thesis by (simp add: is_exposed_Leftward)
  next
    case False
    with assms(4) have "i - 1 < 3" by simp
    with False assms(1,3) below [of j "i - 1"] show ?thesis
      by (simp add: is_exposed_Leftward)
  qed
  have r: "is_exposed thr img j i Rightward \<longleftrightarrow> i = 2"
  proof (cases "i = 2")
    case True
    with assms(1) show ?thesis by (simp add: is_exposed_Rightward)
  next
    case False
    with assms(4) have "i + 1 < 3" by simp
    with False assms(1,3) below [of j "i + 1"] show ?thesis
      by (simp add: is_exposed_Rightward)
  qed
  have u: "is_exposed thr img j i Upward \<longleftrightarrow> j = 0"
  proof (cases "j = 0")
    case True
    then show ?thesis by (simp add: is_exposed_Upward)
  next
    case False
    with assms(3) have "j - 1 < 3" by simp
    with False assms(1,4) below [of "j - 1" i] show ?thesis
      by (simp add: is_exposed_Upward)
  qed
  have d: "is_exposed thr img j i Downward \<longleftrightarrow> j = 2"
  proof (cases "j = 2")
    case True
    with assms(1) show ?thesis by (simp add: is_exposed_Downward)
  next
    case False
    with assms(3) have "j + 1 < 3" by simp
    with False assms(1,4) below [of "j + 1" i] show ?thesis
      by (simp add: is_exposed_Downward)
  qed
  have c: "wall_count thr img j i
           = (if i = 0 then 1 else 0) + (if i = 2 then 1 else 0)
             + (if j = 0 then 1 else 0) + (if j = 2 then 1 else 0)"
    unfolding wall_count_conv l r u d ..
  from assms(3) have "j \<in> {0, 1, 2}" by auto
  moreover from assms(4) have "i \<in> {0, 1, 2}" by auto
  ultimately show ?thesis
    unfolding c by auto
qed

lemma binary_cell_solid:
  assumes "rectangular img" "shape img = (rows, cols)" "j < rows" "i < cols"
    and "int (img ! j ! i) < threshold a"
  shows "binary_cell a img rows cols x_scale y_scale j i facets
         = Inr (facets
                @ top_tris (real i * x_scale) (real (i + 1) * x_scale)
                    (real j * y_scale) (real (j + 1) * y_scale) (extrude_height a)
                @ bottom_tris (real i * x_scale) (real (i + 1) * x_scale)
                    (real j * y_scale) (real (j + 1) * y_scale) 0
                @ cell_walls (threshold a) img j i (real i * x_scale) (real (i + 1) * x_scale)
                    (real j * y_scale) (real (j + 1) * y_scale) (extrude_height a) 0)"
  unfolding binary_cell_eq [OF assms(1-4)] cell_tris_def Let_def using assms(5) by (simp only: if_True)

lemma length_cell_walls_count:
  "length (cell_walls thr img j i x0 x1 y0 y1 zt zb) = 2 * wall_count thr img j i"
  by (simp add: length_cell_walls wall_count_def all_directions_def)

lemma binary_blocks_exposure:
  assumes "rectangular img" "shape img = (rows, cols)" "j < rows" "i < cols"
    and "int (img ! j ! i) < threshold a"
  shows "left_block img (threshold a) j i x0 y0 y1 zt zb fs
           = (if is_exposed (threshold a) img j i Leftward
              then left_wall x0 y0 y1 zt zb fs else Inr fs)
       \<and> right_block img (threshold a) cols j i x1 y0 y1 zt zb fs
           = (if is_exposed (threshold a) img j i Rightward
              then right_wall x1 y0 y1 zt zb fs else Inr fs)
       \<and> top_block img (threshold a) j i x0 x1 y0 zt zb fs
           = (if is_exposed (threshold a) img j i Upward
              then top_wall x0 x1 y0 zt zb fs else Inr fs)
       \<and> bottom_block img (threshold a) rows j i x0 x1 y1 zt zb fs
           = (if is_exposed (threshold a) img j i Downward
              then bottom_wall x0 x1 y1 zt zb fs else Inr fs)
       \<and> (\<exists>faces walls.
            binary_cell a img rows cols x_scale y_scale j i facets = Inr (facets @ faces @ walls)
            \<and> length faces = 4 \<and> length walls = 2 * wall_count (threshold a) img j i)
       \<and> (rows = 3 \<and> cols = 3 \<and> (\<forall>r<3. \<forall>c<3. int (img ! r ! c) < threshold a)
            \<longrightarrow> wall_count (threshold a) img j i
                 = (if j = 1 \<and> i = 1 then 0 else if j \<noteq> 1 \<and> i \<noteq> 1 then 2 else 1))"
proof -
  note in_range = assms(1-4)
  have "left_block img (threshold a) j i x0 y0 y1 zt zb fs
          = (if is_exposed (threshold a) img j i Leftward
             then left_wall x0 y0 y1 zt zb fs else Inr fs)"
    unfolding left_block_def left_exposed_eq [OF in_range] and_then_Inr ..
  moreover have "right_block img (threshold a) cols j i x1 y0 y1 zt zb fs
          = (if is_exposed (threshold a) img j i Rightward
             then right_wall x1 y0 y1 zt zb fs else Inr fs)"
    unfolding right_block_def right_exposed_eq [OF in_range] and_then_Inr ..
  moreover have "top_block img (threshold a) j i x0 x1 y0 zt zb fs
          = (if is_exposed (threshold a) img j i Upward
             then top_wall x0 x1 y0 zt zb fs else Inr fs)"
    unfolding top_block_def top_exposed_eq [OF in_range] and_then_Inr ..
  moreover have "bottom_block img (threshold a) rows j i x0 x1 y1 zt zb fs
          = (if is_exposed (threshold a) img j i Downward
             then bottom_wall x0 x1 y1 zt zb fs else Inr fs)"
    unfolding bottom_block_def bottom_exposed_eq [OF in_range] and_then_Inr ..
  moreover have "\<exists>faces walls.
      binary_cell a img rows cols x_scale y_scale j i facets = Inr (facets @ faces @ walls)
      \<and> length faces = 4 \<and> length walls = 2 * wall_count (threshold a) img j i"
  proof (intro exI conjI)
    show "binary_cell a img rows cols x_scale y_scale j i facets
          = Inr (facets
                 @ (top_tris (real i * x_scale) (real (i + 1) * x_scale)
                      (real j * y_scale) (real (j + 1) * y_scale) (extrude_height a)
                    @ bottom_tris (real i * x_scale) (real (i + 1) * x_scale)
                        (real j * y_scale) (real (j + 1) * y_scale) 0)
                 @ cell_walls (threshold a) img j i (real i * x_scale) (real (i + 1) * x_scale)
                     (real j * y_scale) (real (j + 1) * y_scale) (extrude_height a) 0)"
      using binary_cell_solid [OF assms] by simp
  qed (simp_all add: top_tris_def bottom_tris_def length_cell_walls_count)
  moreover have "rows = 3 \<and> cols = 3 \<and> (\<forall>r<3. \<forall>c<3. int (img ! r ! c) < threshold a)
      \<longrightarrow> wall_count (threshold a) img j i
           = (if j = 1 \<and> i = 1 then 0 else if j \<noteq> 1 \<and> i \<noteq> 1 then 2 else 1)"
    using assms(2-4) wall_count_3x3 [of img "threshold a" j i] by blast
  ultimately show ?thesis
    by (intro conjI)
qed

lemma solid_3x3_facts:
  "rectangular solid_3x3" "shape solid_3x3 = (3, 3)"
  "\<forall>r<3. \<forall>c<3. int (solid_3x3 ! r ! c) < threshold default_args"
proof -
  show "rectangular solid_3x3"
    by (simp add: rectangular_def shape_def solid_3x3_def)
  show "shape solid_3x3 = (3, 3)"
    by (simp add: shape_def solid_3x3_def)
  have "int (solid_3x3 ! r ! c) < threshold default_args" if "r < 3" "c < 3" for r c
  proof -
    from that have "r \<in> {0, 1, 2}" "c \<in> {0, 1, 2}" by auto
    then show ?thesis
      by (auto simp: solid_3x3_def default_args_def)
  qed
  then show "\<forall>r<3. \<forall>c<3. int (solid_3x3 ! r ! c) < threshold default_args"
    by blast
qed

section \<open>Binary mode: the mesh cell by cell\<close>

lemma binary_mesh_cells:
  assumes "rectangular img" "shape img = (rows, cols)" "0 < rows" "0 < cols"
    and "x_scale = x_size a / real cols" "y_scale = y_size a / real rows"
  shows "generate_binary_mesh a img
         = Inr (concat (map (\<lambda>j. concat (map (\<lambda>i. cell_tris a img x_scale y_scale j i)
                  [0..<cols])) [0..<rows]))"
  unfolding generate_binary_mesh_eq [OF assms(1-4)]
  by (simp add: binary_tris_def assms(2,5,6))

text \<open>
  C5. In binary mode the mesh returned for a grid is the concatenation, in row-major
  order, of one list of facets per cell, the list the loop body appends for that cell.
  The list of a cell is not empty (it holds four facets at least) exactly when the pixel
  is strictly below the threshold; a cell whose pixel equals the threshold contributes no
  facet to the output.
\<close>

theorem binary_solid_iff_below_threshold:
  assumes "rectangular img" "shape img = (rows, cols)" "0 < rows" "0 < cols"
    and "x_scale = x_size a / real cols" "y_scale = y_size a / real rows"
  shows "generate_binary_mesh a img
           = Inr (concat (map (\<lambda>j. concat (map (\<lambda>i. cell_tris a img x_scale y_scale j i)
                    [0..<cols])) [0..<rows]))
       \<and> (\<forall>j<rows. \<forall>i<cols.
             (\<forall>facets. binary_cell a img rows cols x_scale y_scale j i facets
                        = Inr (facets @ cell_tris a img x_scale y_scale j i))
           \<and> (cell_tris a img x_scale y_scale j i = [] \<longleftrightarrow> \<not> int (img ! j ! i) < threshold a)
           \<and> (4 \<le> length (cell_tris a img x_scale y_scale j i)
                \<longleftrightarrow> int (img ! j ! i) < threshold a))"
proof (intro conjI allI impI)
  show "generate_binary_mesh a img
        = Inr (concat (map (\<lambda>j. concat (map (\<lambda>i. cell_tris a img x_scale y_scale j i)
                 [0..<cols])) [0..<rows]))"
    using assms by (rule binary_mesh_cells)
next
  fix j i facets
  assume "j < rows" "i < cols"
  with assms(1,2) show "binary_cell a img rows cols x_scale y_scale j i facets
      = Inr (facets @ cell_tris a img x_scale y_scale j i)"
    by (rule binary_cell_eq)
next
  fix j i
  show "cell_tris a img x_scale y_scale j i = [] \<longleftrightarrow> \<not> int (img ! j ! i) < threshold a"
    by (rule cell_tris_empty_iff)
  show "4 \<le> length (cell_tris a img x_scale y_scale j i) \<longleftrightarrow> int (img ! j ! i) < threshold a"
    by (rule cell_tris_length_iff)
qed

theorem binary_solid_iff_below_threshold_witness:
  "rectangular [[128 :: nat]] \<and> shape [[128 :: nat]] = (1, 1)
   \<and> rectangular [[127 :: nat]] \<and> shape [[127 :: nat]] = (1, 1)
   \<and> (120 :: real) = x_size default_args / real 1 \<and> (120 :: real) = y_size default_args / real 1
   \<and> generate_binary_mesh default_args [[128]] = Inr []
   \<and> binary_cell default_args [[128]] 1 1 120 120 0 0 [] = Inr []
   \<and> (\<exists>fs. generate_binary_mesh default_args [[127]] = Inr fs \<and> 4 \<le> length fs)"
proof -
  have sc: "(120 :: real) = x_size default_args / real 1"
    "(120 :: real) = y_size default_args / real 1"
    by (simp_all add: default_args_def)
  note t128 = binary_solid_iff_below_threshold [OF rectangular_1x1 [of 128] shape_1x1 [of 128]
      zero_less_one zero_less_one sc]
  note t127 = binary_solid_iff_below_threshold [OF rectangular_1x1 [of 127] shape_1x1 [of 127]
      zero_less_one zero_less_one sc]
  have c128: "cell_tris default_args [[128]] 120 120 0 0 = []"
    using t128 by (simp add: default_args_def)
  have "generate_binary_mesh default_args [[128]] = Inr []"
    using t128 c128 by simp
  moreover have "binary_cell default_args [[128]] 1 1 120 120 0 0 [] = Inr []"
    using t128 c128 by simp
  moreover have "4 \<le> length (cell_tris default_args [[127]] 120 120 0 0)"
    using t127 by (simp add: default_args_def)
  then have "\<exists>fs. generate_binary_mesh default_args [[127]] = Inr fs \<and> 4 \<le> length fs"
    using t127 by simp
  ultimately show ?thesis
    using sc rectangular_1x1 [of 128] shape_1x1 [of 128] rectangular_1x1 [of 127]
      shape_1x1 [of 127] by (intro conjI)
qed

lemma cell_tris_solid:
  assumes "int (img ! j ! i) < threshold a"
  shows "cell_tris a img x_scale y_scale j i
         = top_tris (real i * x_scale) (real (i + 1) * x_scale)
             (real j * y_scale) (real (j + 1) * y_scale) (extrude_height a)
           @ bottom_tris (real i * x_scale) (real (i + 1) * x_scale)
               (real j * y_scale) (real (j + 1) * y_scale) 0
           @ concat (map (\<lambda>d. if is_exposed (threshold a) img j i d
                               then wall_tris d (real i * x_scale) (real (i + 1) * x_scale)
                                      (real j * y_scale) (real (j + 1) * y_scale)
                                      (extrude_height a) 0
                               else []) all_directions)"
  unfolding cell_tris_def cell_walls_def all_directions_def Let_def using assms
  by (simp only: if_True)

lemma length_cell_tris_solid:
  assumes "int (img ! j ! i) < threshold a"
  shows "length (cell_tris a img x_scale y_scale j i) = 4 + 2 * wall_count (threshold a) img j i"
  using assms
  by (simp add: cell_tris_def Let_def top_tris_def bottom_tris_def length_cell_walls_count)

text \<open>
  C6. In binary mode the mesh returned for a grid is the concatenation, in row-major
  order, of the facets of its cells. A solid cell contributes the two triangles of its top
  face, the two of its bottom face and then, for each of the four directions in the order
  left, right, top row, bottom row, the two triangles of the wall that \<open>left_wall\<close>,
  \<open>right_wall\<close>, \<open>top_wall\<close> or \<open>bottom_wall\<close> emits, exactly when the
  neighbour in that direction is outside the grid or not solid. In a 3 by 3 grid whose
  cells are all solid, the centre cell has no wall, each corner cell has two and each
  edge-centre cell has one.
\<close>

theorem binary_walls_iff_exposed:
  assumes "rectangular img" "shape img = (rows, cols)" "0 < rows" "0 < cols"
    and "x_scale = x_size a / real cols" "y_scale = y_size a / real rows"
  shows "generate_binary_mesh a img
           = Inr (concat (map (\<lambda>j. concat (map (\<lambda>i. cell_tris a img x_scale y_scale j i)
                    [0..<cols])) [0..<rows]))
       \<and> (\<forall>j<rows. \<forall>i<cols. int (img ! j ! i) < threshold a \<longrightarrow>
             cell_tris a img x_scale y_scale j i
               = top_tris (real i * x_scale) (real (i + 1) * x_scale)
                   (real j * y_scale) (real (j + 1) * y_scale) (extrude_height a)
                 @ bottom_tris (real i * x_scale) (real (i + 1) * x_scale)
                     (real j * y_scale) (real (j + 1) * y_scale) 0
                 @ concat (map (\<lambda>d. if is_exposed (threshold a) img j i d
                                     then wall_tris d (real i * x_scale) (real (i + 1) * x_scale)
                                            (real j * y_scale) (real (j + 1) * y_scale)
                                            (extrude_height a) 0
                                     else []) all_directions)
           \<and> length (cell_tris a img x_scale y_scale j i)
               = 4 + 2 * wall_count (threshold a) img j i)
       \<and> (\<forall>x0 x1 y0 y1 zt zb fs.
             left_wall x0 y0 y1 zt zb fs = Inr (fs @ wall_tris Leftward x0 x1 y0 y1 zt zb)
           \<and> right_wall x1 y0 y1 zt zb fs = Inr (fs @ wall_tris Rightward x0 x1 y0 y1 zt zb)
           \<and> top_wall x0 x1 y0 zt zb fs = Inr (fs @ wall_tris Upward x0 x1 y0 y1 zt zb)
           \<and> bottom_wall x0 x1 y1 zt zb fs = Inr (fs @ wall_tris Downward x0 x1 y0 y1 zt zb)
           \<and> length (wall_tris Leftward x0 x1 y0 y1 zt zb) = 2
           \<and> length (wall_tris Rightward x0 x1 y0 y1 zt zb) = 2
           \<and> length (wall_tris Upward x0 x1 y0 y1 zt zb) = 2
           \<and> length (wall_tris Downward x0 x1 y0 y1 zt zb) = 2)
       \<and> (rows = 3 \<and> cols = 3 \<and> (\<forall>r<3. \<forall>c<3. int (img ! r ! c) < threshold a) \<longrightarrow>
             (\<forall>j<3. \<forall>i<3. wall_count (threshold a) img j i
                = (if j = 1 \<and> i = 1 then 0 else if j \<noteq> 1 \<and> i \<noteq> 1 then 2 else 1)))"
proof (intro conjI allI impI)
  show "generate_binary_mesh a img
        = Inr (concat (map (\<lambda>j. concat (map (\<lambda>i. cell_tris a img x_scale y_scale j i)
                 [0..<cols])) [0..<rows]))"
    using assms by (rule binary_mesh_cells)
next
  fix j i
  assume s: "int (img ! j ! i) < threshold a"
  show "cell_tris a img x_scale y_scale j i
        = top_tris (real i * x_scale) (real (i + 1) * x_scale)
            (real j * y_scale) (real (j + 1) * y_scale) (extrude_height a)
          @ bottom_tris (real i * x_scale) (real (i + 1) * x_scale)
              (real j * y_scale) (real (j + 1) * y_scale) 0
          @ concat (map (\<lambda>d. if is_exposed (threshold a) img j i d
                              then wall_tris d (real i * x_scale) (real (i + 1) * x_scale)
                                     (real j * y_scale) (real (j + 1) * y_scale)
                                     (extrude_height a) 0
                              else []) all_directions)"
    using s by (rule cell_tris_solid)
  show "length (cell_tris a img x_scale y_scale j i) = 4 + 2 * wall_count (threshold a) img j i"
    using s by (rule length_cell_tris_solid)
next
  fix x0 x1 y0 y1 zt zb fs
  show "left_wall x0 y0 y1 zt zb fs = Inr (fs @ wall_tris Leftward x0 x1 y0 y1 zt zb)"
    by (rule left_wall_eq)
  show "right_wall x1 y0 y1 zt zb fs = Inr (fs @ wall_tris Rightward x0 x1 y0 y1 zt zb)"
    by (rule right_wall_eq)
  show "top_wall x0 x1 y0 zt zb fs = Inr (fs @ wall_tris Upward x0 x1 y0 y1 zt zb)"
    by (rule top_wall_eq)
  show "bottom_wall x0 x1 y1 zt zb fs = Inr (fs @ wall_tris Downward x0 x1 y0 y1 zt zb)"
    by (rule bottom_wall_eq)
  show "length (wall_tris Leftward x0 x1 y0 y1 zt zb) = 2"
    "length (wall_tris Rightward x0 x1 y0 y1 zt zb) = 2"
    "length (wall_tris Upward x0 x1 y0 y1 zt zb) = 2"
    "length (wall_tris Downward x0 x1 y0 y1 zt zb) = 2"
    by (rule length_wall_tris)+
next
  fix j i :: nat
  assume g: "rows = 3 \<and> cols = 3 \<and> (\<forall>r<3. \<forall>c<3. int (img ! r ! c) < threshold a)"
    and "j < 3" "i < 3"
  with assms(2) show "wall_count (threshold a) img j i
      = (if j = 1 \<and> i = 1 then 0 else if j \<noteq> 1 \<and> i \<noteq> 1 then 2 else 1)"
    by (intro wall_count_3x3) simp_all
qed

lemma upt_0_3: "[0..<3] = [0, 1, 2]"
  by (simp add: numeral_3_eq_3)

theorem binary_walls_iff_exposed_witness:
  "rectangular solid_3x3 \<and> shape solid_3x3 = (3, 3)
   \<and> list_all (list_all (\<lambda>p. int p < threshold default_args)) solid_3x3
   \<and> (40 :: real) = x_size default_args / real 3 \<and> (40 :: real) = y_size default_args / real 3
   \<and> (\<exists>fs. generate_binary_mesh default_args solid_3x3 = Inr fs \<and> length fs = 60)
   \<and> length (cell_tris default_args solid_3x3 40 40 1 1) = 4
   \<and> length (cell_tris default_args solid_3x3 40 40 0 0) = 8
   \<and> length (cell_tris default_args solid_3x3 40 40 0 2) = 8
   \<and> length (cell_tris default_args solid_3x3 40 40 2 0) = 8
   \<and> length (cell_tris default_args solid_3x3 40 40 2 2) = 8
   \<and> length (cell_tris default_args solid_3x3 40 40 0 1) = 6
   \<and> length (cell_tris default_args solid_3x3 40 40 1 0) = 6
   \<and> length (cell_tris default_args solid_3x3 40 40 1 2) = 6
   \<and> length (cell_tris default_args solid_3x3 40 40 2 1) = 6"
proof -
  note f = solid_3x3_facts
  have sc: "(40 :: real) = x_size default_args / real 3"
    "(40 :: real) = y_size default_args / real 3"
    by (simp_all add: default_args_def)
  have pos: "(0 :: nat) < 3"
    by simp
  note t = binary_walls_iff_exposed [OF f(1) f(2) pos pos sc]
  from t have mesh: "generate_binary_mesh default_args solid_3x3
      = Inr (concat (map (\<lambda>j. concat (map (\<lambda>i. cell_tris default_args solid_3x3 40 40 j i)
               [0..<3])) [0..<3]))"
    by (rule conjunct1)
  from t have len: "length (cell_tris default_args solid_3x3 40 40 j i)
      = 4 + 2 * wall_count (threshold default_args) solid_3x3 j i" if "j < 3" "i < 3" for j i
    using that f(3) by blast
  from t have "\<forall>j<3. \<forall>i<3. wall_count (threshold default_args) solid_3x3 j i
      = (if j = 1 \<and> i = 1 then 0 else if j \<noteq> 1 \<and> i \<noteq> 1 then 2 else 1)"
    using f(3) by blast
  then have wc: "wall_count (threshold default_args) solid_3x3 j i
      = (if j = 1 \<and> i = 1 then 0 else if j \<noteq> 1 \<and> i \<noteq> 1 then 2 else 1)"
    if "j < 3" "i < 3" for j i
    using that by blast
  have l11: "length (cell_tris default_args solid_3x3 40 40 1 1) = 4"
    using len [of 1 1] wc [of 1 1] by simp
  have l00: "length (cell_tris default_args solid_3x3 40 40 0 0) = 8"
    using len [of 0 0] wc [of 0 0] by simp
  have l02: "length (cell_tris default_args solid_3x3 40 40 0 2) = 8"
    using len [of 0 2] wc [of 0 2] by simp
  have l20: "length (cell_tris default_args solid_3x3 40 40 2 0) = 8"
    using len [of 2 0] wc [of 2 0] by simp
  have l22: "length (cell_tris default_args solid_3x3 40 40 2 2) = 8"
    using len [of 2 2] wc [of 2 2] by simp
  have l01: "length (cell_tris default_args solid_3x3 40 40 0 1) = 6"
    using len [of 0 1] wc [of 0 1] by simp
  have l10: "length (cell_tris default_args solid_3x3 40 40 1 0) = 6"
    using len [of 1 0] wc [of 1 0] by simp
  have l12: "length (cell_tris default_args solid_3x3 40 40 1 2) = 6"
    using len [of 1 2] wc [of 1 2] by simp
  have l21: "length (cell_tris default_args solid_3x3 40 40 2 1) = 6"
    using len [of 2 1] wc [of 2 1] by simp
  have "length (concat (map (\<lambda>j. concat (map (\<lambda>i. cell_tris default_args solid_3x3 40 40 j i)
               [0..<3])) [0..<3])) = 60"
    unfolding upt_0_3 using l11 l00 l02 l20 l22 l01 l10 l12 l21 by simp
  with mesh have total: "\<exists>fs. generate_binary_mesh default_args solid_3x3 = Inr fs \<and> length fs = 60"
    by simp
  have all: "list_all (list_all (\<lambda>p. int p < threshold default_args)) solid_3x3"
    by (simp add: solid_3x3_def default_args_def)
  from f(1) f(2) all sc total l11 l00 l02 l20 l22 l01 l10 l12 l21 show ?thesis
    by (intro conjI)
qed

section \<open>Binary mode: the normals of a cell\<close>

lemma norm3_axis [simp]:
  "norm3 (c, 0, 0) = \<bar>c\<bar>" "norm3 (0, c, 0) = \<bar>c\<bar>" "norm3 (0, 0, c) = \<bar>c\<bar>"
  by (simp_all add: norm3_def)

lemma tri_x:
  assumes "cross (vsub v2 v1) (vsub v3 v1) = (c, 0, 0)" "c \<noteq> 0"
  shows "tri v1 v2 v3 = ((sgn c, 0, 0), v1, v2, v3)"
  using assms by (simp add: tri_def normal_of_def Let_def sgn_real_def)

lemma tri_y:
  assumes "cross (vsub v2 v1) (vsub v3 v1) = (0, c, 0)" "c \<noteq> 0"
  shows "tri v1 v2 v3 = ((0, sgn c, 0), v1, v2, v3)"
  using assms by (simp add: tri_def normal_of_def Let_def sgn_real_def)

lemma tri_z:
  assumes "cross (vsub v2 v1) (vsub v3 v1) = (0, 0, c)" "c \<noteq> 0"
  shows "tri v1 v2 v3 = ((0, 0, sgn c), v1, v2, v3)"
  using assms by (simp add: tri_def normal_of_def Let_def sgn_real_def)

lemma wall_tris_Leftward:
  assumes "y0 < y1" "zb < zt"
  shows "wall_tris Leftward x0 x1 y0 y1 zt zb
         = [((1, 0, 0), (x0, y1, zt), (x0, y0, zt), (x0, y0, zb)),
            ((1, 0, 0), (x0, y1, zt), (x0, y0, zb), (x0, y1, zb))]"
proof -
  have p: "0 < (y1 - y0) * (zt - zb)"
    using assms by simp
  have "tri (x0, y1, zt) (x0, y0, zt) (x0, y0, zb)
        = ((sgn ((y1 - y0) * (zt - zb)), 0, 0), (x0, y1, zt), (x0, y0, zt), (x0, y0, zb))"
    using p by (intro tri_x) (simp_all add: cross_def vsub_def algebra_simps)
  moreover have "tri (x0, y1, zt) (x0, y0, zb) (x0, y1, zb)
        = ((sgn ((y1 - y0) * (zt - zb)), 0, 0), (x0, y1, zt), (x0, y0, zb), (x0, y1, zb))"
    using p by (intro tri_x) (simp_all add: cross_def vsub_def algebra_simps)
  ultimately show ?thesis
    using p by simp
qed

lemma wall_tris_Rightward:
  assumes "y0 < y1" "zb < zt"
  shows "wall_tris Rightward x0 x1 y0 y1 zt zb
         = [((- 1, 0, 0), (x1, y0, zt), (x1, y1, zt), (x1, y0, zb)),
            ((- 1, 0, 0), (x1, y1, zt), (x1, y1, zb), (x1, y0, zb))]"
proof -
  have p: "- ((y1 - y0) * (zt - zb)) < 0"
    using assms by simp
  have "tri (x1, y0, zt) (x1, y1, zt) (x1, y0, zb)
        = ((sgn (- ((y1 - y0) * (zt - zb))), 0, 0), (x1, y0, zt), (x1, y1, zt), (x1, y0, zb))"
    using p by (intro tri_x) (simp_all add: cross_def vsub_def algebra_simps)
  moreover have "tri (x1, y1, zt) (x1, y1, zb) (x1, y0, zb)
        = ((sgn (- ((y1 - y0) * (zt - zb))), 0, 0), (x1, y1, zt), (x1, y1, zb), (x1, y0, zb))"
    using p by (intro tri_x) (simp_all add: cross_def vsub_def algebra_simps)
  ultimately show ?thesis
    using p by simp
qed

lemma wall_tris_Upward:
  assumes "x0 < x1" "zb < zt"
  shows "wall_tris Upward x0 x1 y0 y1 zt zb
         = [((0, - 1, 0), (x1, y0, zt), (x0, y0, zt), (x0, y0, zb)),
            ((0, - 1, 0), (x1, y0, zt), (x0, y0, zb), (x1, y0, zb))]"
proof -
  have p: "- ((x1 - x0) * (zt - zb)) < 0"
    using assms by simp
  have "tri (x1, y0, zt) (x0, y0, zt) (x0, y0, zb)
        = ((0, sgn (- ((x1 - x0) * (zt - zb))), 0), (x1, y0, zt), (x0, y0, zt), (x0, y0, zb))"
    using p by (intro tri_y) (simp_all add: cross_def vsub_def algebra_simps)
  moreover have "tri (x1, y0, zt) (x0, y0, zb) (x1, y0, zb)
        = ((0, sgn (- ((x1 - x0) * (zt - zb))), 0), (x1, y0, zt), (x0, y0, zb), (x1, y0, zb))"
    using p by (intro tri_y) (simp_all add: cross_def vsub_def algebra_simps)
  ultimately show ?thesis
    using p by simp
qed

lemma wall_tris_Downward:
  assumes "x0 < x1" "zb < zt"
  shows "wall_tris Downward x0 x1 y0 y1 zt zb
         = [((0, 1, 0), (x0, y1, zt), (x1, y1, zt), (x0, y1, zb)),
            ((0, 1, 0), (x1, y1, zt), (x1, y1, zb), (x0, y1, zb))]"
proof -
  have p: "0 < (x1 - x0) * (zt - zb)"
    using assms by simp
  have "tri (x0, y1, zt) (x1, y1, zt) (x0, y1, zb)
        = ((0, sgn ((x1 - x0) * (zt - zb)), 0), (x0, y1, zt), (x1, y1, zt), (x0, y1, zb))"
    using p by (intro tri_y) (simp_all add: cross_def vsub_def algebra_simps)
  moreover have "tri (x1, y1, zt) (x1, y1, zb) (x0, y1, zb)
        = ((0, sgn ((x1 - x0) * (zt - zb)), 0), (x1, y1, zt), (x1, y1, zb), (x0, y1, zb))"
    using p by (intro tri_y) (simp_all add: cross_def vsub_def algebra_simps)
  ultimately show ?thesis
    using p by simp
qed

lemma top_tris_up:
  assumes "x0 < x1" "y0 < y1"
  shows "top_tris x0 x1 y0 y1 zt
         = [((0, 0, 1), (x0, y0, zt), (x1, y0, zt), (x1, y1, zt)),
            ((0, 0, 1), (x0, y0, zt), (x1, y1, zt), (x0, y1, zt))]"
proof -
  have p: "0 < (x1 - x0) * (y1 - y0)"
    using assms by simp
  have "tri (x0, y0, zt) (x1, y0, zt) (x1, y1, zt)
        = ((0, 0, sgn ((x1 - x0) * (y1 - y0))), (x0, y0, zt), (x1, y0, zt), (x1, y1, zt))"
    using p by (intro tri_z) (simp_all add: cross_def vsub_def algebra_simps)
  moreover have "tri (x0, y0, zt) (x1, y1, zt) (x0, y1, zt)
        = ((0, 0, sgn ((x1 - x0) * (y1 - y0))), (x0, y0, zt), (x1, y1, zt), (x0, y1, zt))"
    using p by (intro tri_z) (simp_all add: cross_def vsub_def algebra_simps)
  ultimately show ?thesis
    using p by (simp add: top_tris_def)
qed

lemma bottom_tris_down:
  assumes "x0 < x1" "y0 < y1"
  shows "bottom_tris x0 x1 y0 y1 zb
         = [((0, 0, - 1), (x1, y1, zb), (x1, y0, zb), (x0, y0, zb)),
            ((0, 0, - 1), (x0, y1, zb), (x1, y1, zb), (x0, y0, zb))]"
proof -
  have p: "- ((x1 - x0) * (y1 - y0)) < 0"
    using assms by simp
  have "tri (x1, y1, zb) (x1, y0, zb) (x0, y0, zb)
        = ((0, 0, sgn (- ((x1 - x0) * (y1 - y0)))), (x1, y1, zb), (x1, y0, zb), (x0, y0, zb))"
    using p by (intro tri_z) (simp_all add: cross_def vsub_def algebra_simps)
  moreover have "tri (x0, y1, zb) (x1, y1, zb) (x0, y0, zb)
        = ((0, 0, sgn (- ((x1 - x0) * (y1 - y0)))), (x0, y1, zb), (x1, y1, zb), (x0, y0, zb))"
    using p by (intro tri_z) (simp_all add: cross_def vsub_def algebra_simps)
  ultimately show ?thesis
    using p by (simp add: bottom_tris_def)
qed

lemma is_exposed_1x1: "is_exposed thr [[p]] 0 0 d"
  by (cases d) (simp_all add: is_exposed_def in_grid_def shape_def)

lemma single_cell_mesh:
  "generate_binary_mesh (default_args\<lparr>binary := True\<rparr>) [[0]]
   = Inr [((0, 0, 1), (0, 0, 15), (120, 0, 15), (120, 120, 15)),
          ((0, 0, 1), (0, 0, 15), (120, 120, 15), (0, 120, 15)),
          ((0, 0, - 1), (120, 120, 0), (120, 0, 0), (0, 0, 0)),
          ((0, 0, - 1), (0, 120, 0), (120, 120, 0), (0, 0, 0)),
          ((1, 0, 0), (0, 120, 15), (0, 0, 15), (0, 0, 0)),
          ((1, 0, 0), (0, 120, 15), (0, 0, 0), (0, 120, 0)),
          ((- 1, 0, 0), (120, 0, 15), (120, 120, 15), (120, 0, 0)),
          ((- 1, 0, 0), (120, 120, 15), (120, 120, 0), (120, 0, 0)),
          ((0, - 1, 0), (120, 0, 15), (0, 0, 15), (0, 0, 0)),
          ((0, - 1, 0), (120, 0, 15), (0, 0, 0), (120, 0, 0)),
          ((0, 1, 0), (0, 120, 15), (120, 120, 15), (0, 120, 0)),
          ((0, 1, 0), (120, 120, 15), (120, 120, 0), (0, 120, 0))]"
proof -
  have "generate_binary_mesh (default_args\<lparr>binary := True\<rparr>) [[0]]
        = Inr (binary_tris (default_args\<lparr>binary := True\<rparr>) [[0]])"
    by (rule generate_binary_mesh_eq [OF rectangular_1x1 shape_1x1]) simp_all
  also have "binary_tris (default_args\<lparr>binary := True\<rparr>) [[0]]
        = top_tris 0 120 0 120 15 @ bottom_tris 0 120 0 120 0
          @ wall_tris Leftward 0 120 0 120 15 0 @ wall_tris Rightward 0 120 0 120 15 0
          @ wall_tris Upward 0 120 0 120 15 0 @ wall_tris Downward 0 120 0 120 15 0"
    by (simp add: binary_tris_def shape_1x1 cell_tris_def cell_walls_def is_exposed_1x1
        default_args_def del: wall_tris.simps)
  also have "\<dots> = [((0, 0, 1), (0, 0, 15), (120, 0, 15), (120, 120, 15)),
          ((0, 0, 1), (0, 0, 15), (120, 120, 15), (0, 120, 15)),
          ((0, 0, - 1), (120, 120, 0), (120, 0, 0), (0, 0, 0)),
          ((0, 0, - 1), (0, 120, 0), (120, 120, 0), (0, 0, 0)),
          ((1, 0, 0), (0, 120, 15), (0, 0, 15), (0, 0, 0)),
          ((1, 0, 0), (0, 120, 15), (0, 0, 0), (0, 120, 0)),
          ((- 1, 0, 0), (120, 0, 15), (120, 120, 15), (120, 0, 0)),
          ((- 1, 0, 0), (120, 120, 15), (120, 120, 0), (120, 0, 0)),
          ((0, - 1, 0), (120, 0, 15), (0, 0, 15), (0, 0, 0)),
          ((0, - 1, 0), (120, 0, 15), (0, 0, 0), (120, 0, 0)),
          ((0, 1, 0), (0, 120, 15), (120, 120, 15), (0, 120, 0)),
          ((0, 1, 0), (120, 120, 15), (120, 120, 0), (0, 120, 0))]"
    by (simp add: top_tris_up bottom_tris_down wall_tris_Leftward wall_tris_Rightward
        wall_tris_Upward wall_tris_Downward del: wall_tris.simps)
  finally show ?thesis .
qed

text \<open>
  C2. The mesh of the one-pixel image \<open>[[0]]\<close> under the default configuration, in
  binary mode: the cell spans 0 to 120 in x and y. Its top-row and bottom-row walls
  (facets 9 to 12) have the normals (0, -1, 0) and (0, 1, 0), away from the cell. Its left
  wall at x = 0 (facets 5 and 6) has the normal (1, 0, 0) and its right wall at x = 120
  (facets 7 and 8) the normal (-1, 0, 0): both point into the cell.
\<close>

theorem binary_side_walls_face_inward:
  "generate_binary_mesh (default_args\<lparr>binary := True\<rparr>) [[0]]
   = Inr [((0, 0, 1), (0, 0, 15), (120, 0, 15), (120, 120, 15)),
          ((0, 0, 1), (0, 0, 15), (120, 120, 15), (0, 120, 15)),
          ((0, 0, - 1), (120, 120, 0), (120, 0, 0), (0, 0, 0)),
          ((0, 0, - 1), (0, 120, 0), (120, 120, 0), (0, 0, 0)),
          ((1, 0, 0), (0, 120, 15), (0, 0, 15), (0, 0, 0)),
          ((1, 0, 0), (0, 120, 15), (0, 0, 0), (0, 120, 0)),
          ((- 1, 0, 0), (120, 0, 15), (120, 120, 15), (120, 0, 0)),
          ((- 1, 0, 0), (120, 120, 15), (120, 120, 0), (120, 0, 0)),
          ((0, - 1, 0), (120, 0, 15), (0, 0, 15), (0, 0, 0)),
          ((0, - 1, 0), (120, 0, 15), (0, 0, 0), (120, 0, 0)),
          ((0, 1, 0), (0, 120, 15), (120, 120, 15), (0, 120, 0)),
          ((0, 1, 0), (120, 120, 15), (120, 120, 0), (0, 120, 0))]"
  by (rule single_cell_mesh)

section \<open>Stored normals\<close>

lemma consistent_Nil: "consistent []"
  by (simp add: consistent_def)

lemma consistent_snoc_tri: "consistent fs \<Longrightarrow> consistent (fs @ [tri v1 v2 v3])"
  by (simp add: consistent_def tri_def compute_normal_eq)

lemma keepsI: "(\<And>fs fs'. consistent fs \<Longrightarrow> f fs = Inr fs' \<Longrightarrow> consistent fs') \<Longrightarrow> keeps f"
  unfolding keeps_def by (intro allI impI) (erule conjE)

lemma keepsD: "keeps f \<Longrightarrow> consistent fs \<Longrightarrow> f fs = Inr fs' \<Longrightarrow> consistent fs'"
  by (simp add: keeps_def)

lemma keeps_add_triangle: "keeps (\<lambda>fs. add_triangle fs v1 v2 v3)"
proof (rule keepsI)
  fix fs fs'
  assume "consistent fs" and "add_triangle fs v1 v2 v3 = Inr fs'"
  then show "consistent fs'"
    using consistent_snoc_tri [of fs v1 v2 v3] by (simp add: add_triangle_eq)
qed

lemma keeps_Inr: "keeps Inr"
  by (rule keepsI) simp

lemma keeps_and_then:
  assumes "keeps f" "keeps g"
  shows "keeps (\<lambda>fs. and_then (f fs) g)"
proof (rule keepsI)
  fix fs fs'
  assume c: "consistent fs" and r: "and_then (f fs) g = Inr fs'"
  from r obtain fs1 where f: "f fs = Inr fs1" and g: "g fs1 = Inr fs'"
    by (cases "f fs") simp_all
  from assms(1) c f have "consistent fs1"
    by (rule keepsD)
  with assms(2) show "consistent fs'"
    using g by (rule keepsD)
qed

lemma keeps_read:
  assumes "\<And>x. keeps (g x)"
  shows "keeps (\<lambda>fs. and_then m (\<lambda>x. g x fs))"
proof (rule keepsI)
  fix fs fs'
  assume c: "consistent fs" and r: "and_then m (\<lambda>x. g x fs) = Inr fs'"
  from r obtain x where "g x fs = Inr fs'"
    by (cases m) simp_all
  with assms [of x] c show "consistent fs'"
    by (rule keepsD)
qed

lemma keeps_if: "keeps f \<Longrightarrow> keeps g \<Longrightarrow> keeps (\<lambda>fs. if b then f fs else g fs)"
  by (cases b) simp_all

lemma keeps_for_loop:
  assumes "\<And>k. keeps (body k)"
  shows "keeps (for_loop ks body)"
proof (induction ks)
  case Nil
  show ?case by (rule keepsI) simp
next
  case (Cons k ks)
  have "keeps (\<lambda>fs. and_then (body k fs) (for_loop ks body))"
    using assms Cons.IH by (rule keeps_and_then)
  then show ?case
    by (simp add: keeps_def)
qed

lemma keeps_two:
  "keeps (\<lambda>fs. and_then (add_triangle fs a b c) (\<lambda>fs. add_triangle fs d e f))"
  using keeps_add_triangle keeps_add_triangle by (rule keeps_and_then)

lemma keeps_top_face: "keeps (top_face x0 x1 y0 y1 zt)"
  using keeps_two unfolding top_face_def [abs_def] Let_def .

lemma keeps_bottom_face: "keeps (bottom_face x0 x1 y0 y1 zb)"
  using keeps_two unfolding bottom_face_def [abs_def] Let_def .

lemma keeps_left_wall: "keeps (left_wall x0 y0 y1 zt zb)"
  using keeps_two unfolding left_wall_def [abs_def] Let_def .

lemma keeps_right_wall: "keeps (right_wall x1 y0 y1 zt zb)"
  using keeps_two unfolding right_wall_def [abs_def] Let_def .

lemma keeps_top_wall: "keeps (top_wall x0 x1 y0 zt zb)"
  using keeps_two unfolding top_wall_def [abs_def] Let_def .

lemma keeps_bottom_wall: "keeps (bottom_wall x0 x1 y1 zt zb)"
  using keeps_two unfolding bottom_wall_def [abs_def] Let_def .

lemma keeps_guarded:
  assumes "keeps f"
  shows "keeps (\<lambda>fs. and_then m (\<lambda>exposed. if exposed then f fs else Inr fs))"
proof (rule keeps_read)
  fix exposed :: bool
  show "keeps (\<lambda>fs. if exposed then f fs else Inr fs)"
    using assms keeps_Inr by (rule keeps_if)
qed

lemma keeps_left_block: "keeps (left_block img thr j i x0 y0 y1 zt zb)"
  using keeps_guarded [OF keeps_left_wall] unfolding left_block_def [abs_def] .

lemma keeps_right_block: "keeps (right_block img thr cols j i x1 y0 y1 zt zb)"
  using keeps_guarded [OF keeps_right_wall] unfolding right_block_def [abs_def] .

lemma keeps_top_block: "keeps (top_block img thr j i x0 x1 y0 zt zb)"
  using keeps_guarded [OF keeps_top_wall] unfolding top_block_def [abs_def] .

lemma keeps_bottom_block: "keeps (bottom_block img thr rows j i x0 x1 y1 zt zb)"
  using keeps_guarded [OF keeps_bottom_wall] unfolding bottom_block_def [abs_def] .

lemma keeps_binary_cell: "keeps (binary_cell a img rows cols x_scale y_scale j i)"
proof (rule keepsI)
  fix fs fs'
  assume c: "consistent fs"
    and r: "binary_cell a img rows cols x_scale y_scale j i fs = Inr fs'"
  from r obtain p where p: "at2 img j i = Inr p"
    by (cases "at2 img j i") (simp_all add: binary_cell_def)
  show "consistent fs'"
  proof (cases "int p < threshold a")
    case False
    with r p c show ?thesis
      by (simp add: binary_cell_def)
  next
    case True
    define x0 x1 y0 y1 zt where "x0 = real i * x_scale" and "x1 = real (i + 1) * x_scale"
      and "y0 = real j * y_scale" and "y1 = real (j + 1) * y_scale" and "zt = extrude_height a"
    note geo = x0_def x1_def y0_def y1_def zt_def
    have k: "keeps (\<lambda>fs.
        and_then (top_face x0 x1 y0 y1 zt fs) (\<lambda>fs.
        and_then (bottom_face x0 x1 y0 y1 0 fs) (\<lambda>fs.
        and_then (left_block img (threshold a) j i x0 y0 y1 zt 0 fs) (\<lambda>fs.
        and_then (right_block img (threshold a) cols j i x1 y0 y1 zt 0 fs) (\<lambda>fs.
        and_then (top_block img (threshold a) j i x0 x1 y0 zt 0 fs)
          (bottom_block img (threshold a) rows j i x0 x1 y1 zt 0))))))"
      by (intro keeps_and_then keeps_top_face keeps_bottom_face keeps_left_block
          keeps_right_block keeps_top_block keeps_bottom_block)
    have "binary_cell a img rows cols x_scale y_scale j i fs
          = and_then (top_face x0 x1 y0 y1 zt fs) (\<lambda>fs.
            and_then (bottom_face x0 x1 y0 y1 0 fs) (\<lambda>fs.
            and_then (left_block img (threshold a) j i x0 y0 y1 zt 0 fs) (\<lambda>fs.
            and_then (right_block img (threshold a) cols j i x1 y0 y1 zt 0 fs) (\<lambda>fs.
            and_then (top_block img (threshold a) j i x0 x1 y0 zt 0 fs)
              (bottom_block img (threshold a) rows j i x0 x1 y1 zt 0)))))"
      using True unfolding binary_cell_def Let_def geo p and_then_Inr by (simp only: if_True)
    with k c r show ?thesis
      by (simp add: keeps_def)
  qed
qed

lemma consistent_generate_binary_mesh:
  assumes "generate_binary_mesh a img = Inr fs"
  shows "consistent fs"
proof -
  obtain rows cols where s: "shape img = (rows, cols)"
    by (cases "shape img")
  have k: "keeps (for_loop [0..<rows] (\<lambda>j. for_loop [0..<cols] (\<lambda>i.
              binary_cell a img rows cols x_scale y_scale j i)))" for x_scale y_scale
    by (intro keeps_for_loop keeps_binary_cell)
  from assms s obtain x_scale y_scale where
    "for_loop [0..<rows] (\<lambda>j. for_loop [0..<cols] (\<lambda>i.
       binary_cell a img rows cols x_scale y_scale j i)) [] = Inr fs"
    by (auto simp: generate_binary_mesh_def py_div_def split: if_splits)
  with k [of x_scale y_scale] consistent_Nil show ?thesis
    by (rule keepsD)
qed

lemma keeps_quad:
  "keeps (\<lambda>facets.
     and_then (at2 tv j i) (\<lambda>v1.
     and_then (at2 tv j (i + 1)) (\<lambda>v2.
     and_then (at2 tv (j + 1) i) (\<lambda>v3.
     and_then (at2 tv (j + 1) (i + 1)) (\<lambda>v4.
     and_then (add_triangle facets v1 v2 v3) (\<lambda>facets.
     add_triangle facets v2 v4 v3))))))"
  by (intro keeps_read keeps_two)

lemma keeps_top_surface: "keeps (top_surface rows cols tv)"
  unfolding top_surface_def [abs_def]
  by (intro keeps_for_loop keeps_quad)

lemma keeps_base_face: "keeps (base_face a)"
  using keeps_two unfolding base_face_def [abs_def] Let_def .

lemma keeps_top_edge: "keeps (top_edge cols tv)"
  unfolding top_edge_def [abs_def] Let_def
  by (intro keeps_for_loop keeps_read keeps_two)

lemma keeps_bottom_edge: "keeps (bottom_edge rows cols tv)"
  unfolding bottom_edge_def [abs_def] Let_def
  by (intro keeps_for_loop keeps_read keeps_two)

lemma keeps_left_edge: "keeps (left_edge rows tv)"
  unfolding left_edge_def [abs_def] Let_def
  by (intro keeps_for_loop keeps_read keeps_two)

lemma keeps_right_edge: "keeps (right_edge rows cols tv)"
  unfolding right_edge_def [abs_def] Let_def
  by (intro keeps_for_loop keeps_read keeps_two)

lemma consistent_generate_continuous_mesh:
  assumes "generate_continuous_mesh a img = Inr fs"
  shows "consistent fs"
proof -
  obtain rows cols where s: "shape img = (rows, cols)"
    by (cases "shape img")
  have k: "keeps (\<lambda>facets.
      and_then (top_surface rows cols tv facets) (\<lambda>facets.
      and_then (base_face a facets) (\<lambda>facets.
      and_then (top_edge cols tv facets) (\<lambda>facets.
      and_then (bottom_edge rows cols tv facets) (\<lambda>facets.
      and_then (left_edge rows tv facets) (right_edge rows cols tv))))))" for tv
    by (intro keeps_and_then keeps_top_surface keeps_base_face keeps_top_edge
        keeps_bottom_edge keeps_left_edge keeps_right_edge)
  from assms s obtain tv where
    "and_then (top_surface rows cols tv []) (\<lambda>facets.
      and_then (base_face a facets) (\<lambda>facets.
      and_then (top_edge cols tv facets) (\<lambda>facets.
      and_then (bottom_edge rows cols tv facets) (\<lambda>facets.
      and_then (left_edge rows tv facets) (right_edge rows cols tv))))) = Inr fs"
    by (auto simp: generate_continuous_mesh_def py_div_def Let_def and_then_def
        split: if_splits sum.splits)
  with k [of tv] consistent_Nil show ?thesis
    by (rule keepsD)
qed

text \<open>
  C8. Whatever mesh either builder returns, every facet (normal, v1, v2, v3) in it
  satisfies: \<open>compute_normal\<close> on v1, v2, v3 in this order gives the stored normal.
\<close>

theorem stored_normal_roundtrip:
  assumes "build_mesh a img = Inr fs" "(n, v1, v2, v3) \<in> set fs"
  shows "compute_normal v1 v2 v3 = Inr n"
proof -
  have "consistent fs"
    using assms(1) consistent_generate_binary_mesh consistent_generate_continuous_mesh
    by (cases "binary a") (simp_all add: build_mesh_def)
  with assms(2) show ?thesis
    by (auto simp: consistent_def)
qed

theorem stored_normal_roundtrip_witness:
  "\<exists>fs. build_mesh (default_args\<lparr>binary := True\<rparr>) [[0]] = Inr fs
      \<and> ((1, 0, 0), (0, 120, 15), (0, 0, 15), (0, 0, 0)) \<in> set fs
      \<and> compute_normal (0, 120, 15) (0, 0, 15) (0, 0, 0) = Inr (1, 0, 0)"
proof -
  let ?fs = "[((0, 0, 1), (0, 0, 15), (120, 0, 15), (120, 120, 15)),
          ((0, 0, 1), (0, 0, 15), (120, 120, 15), (0, 120, 15)),
          ((0, 0, - 1), (120, 120, 0), (120, 0, 0), (0, 0, 0)),
          ((0, 0, - 1), (0, 120, 0), (120, 120, 0), (0, 0, 0)),
          ((1, 0, 0), (0, 120, 15), (0, 0, 15), (0, 0, 0)),
          ((1, 0, 0), (0, 120, 15), (0, 0, 0), (0, 120, 0)),
          ((- 1, 0, 0), (120, 0, 15), (120, 120, 15), (120, 0, 0)),
          ((- 1, 0, 0), (120, 120, 15), (120, 120, 0), (120, 0, 0)),
          ((0, - 1, 0), (120, 0, 15), (0, 0, 15), (0, 0, 0)),
          ((0, - 1, 0), (120, 0, 15), (0, 0, 0), (120, 0, 0)),
          ((0, 1, 0), (0, 120, 15), (120, 120, 15), (0, 120, 0)),
          ((0, 1, 0), (120, 120, 15), (120, 120, 0), (0, 120, 0))] :: facet list"
  have b: "build_mesh (default_args\<lparr>binary := True\<rparr>) [[0]] = Inr ?fs"
    using single_cell_mesh by (simp add: build_mesh_def)
  have m: "((1, 0, 0), (0, 120, 15), (0, 0, 15), (0, 0, 0)) \<in> set ?fs"
    by simp
  from stored_normal_roundtrip [OF b m] b m show ?thesis
    by blast
qed

section \<open>Continuous mode: the mesh as a list\<close>

lemma drop_update_head: "n < length xs \<Longrightarrow> (drop n xs)[0 := v] = v # drop (Suc n) xs"
  by (simp add: Cons_nth_drop_Suc [symmetric])

lemma append_update_end:
  "n < length xs \<Longrightarrow> (map h [0..<n] @ drop n xs)[n := v] = map h [0..<n] @ v # drop (Suc n) xs"
  by (simp add: list_update_append drop_update_head)

lemma fill_row:
  assumes "j < length tv" "n \<le> length (tv ! j)" "\<forall>i<n. val i = Inr (g i)"
  shows "for_loop [0..<n] (\<lambda>i tv. and_then (val i) (\<lambda>z. set2 tv j i (f i z))) tv
         = Inr (tv[j := map (\<lambda>i. f i (g i)) [0..<n] @ drop n (tv ! j)])"
  using assms(2,3)
proof (induction n)
  case 0
  then show ?case by simp
next
  case (Suc n)
  let ?h = "\<lambda>i. f i (g i)"
  let ?tv1 = "tv[j := map ?h [0..<n] @ drop n (tv ! j)]"
  have ih: "for_loop [0..<n] (\<lambda>i tv. and_then (val i) (\<lambda>z. set2 tv j i (f i z))) tv = Inr ?tv1"
    using Suc by simp
  have n: "n < length (tv ! j)"
    using Suc.prems by simp
  have v: "val n = Inr (g n)"
    using Suc.prems by simp
  have "set2 ?tv1 j n (?h n) = Inr (?tv1[j := (?tv1 ! j)[n := ?h n]])"
    using assms(1) n by (simp add: set2_def)
  also have "?tv1[j := (?tv1 ! j)[n := ?h n]]
             = tv[j := map ?h [0..<Suc n] @ drop (Suc n) (tv ! j)]"
    using assms(1) n by (simp add: append_update_end)
  finally show ?case
    by (simp add: for_loop_append ih v)
qed

lemma fill_rows:
  assumes "m \<le> length tv" "\<forall>j<m. length (tv ! j) = cols"
    and "\<forall>j<m. \<forall>i<cols. val j i = Inr (g j i)"
  shows "for_loop [0..<m] (\<lambda>j. for_loop [0..<cols]
           (\<lambda>i tv. and_then (val j i) (\<lambda>z. set2 tv j i (f j i z)))) tv
         = Inr (map (\<lambda>j. map (\<lambda>i. f j i (g j i)) [0..<cols]) [0..<m] @ drop m tv)"
  using assms
proof (induction m)
  case 0
  then show ?case by simp
next
  case (Suc m)
  let ?row = "\<lambda>j. map (\<lambda>i. f j i (g j i)) [0..<cols]"
  let ?tv1 = "map ?row [0..<m] @ drop m tv"
  have ih: "for_loop [0..<m] (\<lambda>j. for_loop [0..<cols]
              (\<lambda>i tv. and_then (val j i) (\<lambda>z. set2 tv j i (f j i z)))) tv = Inr ?tv1"
    using Suc by simp
  have m: "m < length tv"
    using Suc.prems by simp
  have r: "?tv1 ! m = tv ! m"
    using m by (simp add: nth_append)
  have l: "length (tv ! m) = cols"
    using Suc.prems by simp
  have "for_loop [0..<cols] (\<lambda>i tv. and_then (val m i) (\<lambda>z. set2 tv m i (f m i z))) ?tv1
        = Inr (?tv1[m := map (\<lambda>i. f m i (g m i)) [0..<cols] @ drop cols (?tv1 ! m)])"
    using m Suc.prems(3) by (intro fill_row) (simp_all add: r l)
  also have "?tv1[m := map (\<lambda>i. f m i (g m i)) [0..<cols] @ drop cols (?tv1 ! m)]
             = map ?row [0..<Suc m] @ drop (Suc m) tv"
    using m by (simp add: r l append_update_end)
  finally show ?case
    by (simp add: for_loop_append ih)
qed

lemma at2_z_array:
  assumes "rectangular img" "shape img = (rows, cols)" "j < rows" "i < cols"
  shows "at2 (z_array_of a img) j i = Inr (real (img ! j ! i) / 255 * extrude_height a)"
  using assms rectangular_row [OF assms(1,2,3)]
  by (simp add: at2_def z_array_of_def shape_rows)

lemma fill_top_vertices_eq:
  assumes "rectangular img" "shape img = (rows, cols)"
  shows "fill_top_vertices rows cols x_scale y_scale (z_array_of a img)
         = Inr (map (\<lambda>j. map (\<lambda>i. top_vertex a img x_scale y_scale j i) [0..<cols]) [0..<rows])"
proof -
  have "for_loop [0..<rows] (\<lambda>j. for_loop [0..<cols]
           (\<lambda>i tv. and_then (at2 (z_array_of a img) j i)
              (\<lambda>z. set2 tv j i (real i * x_scale, real j * y_scale, z)))) (np_empty rows cols)
        = Inr (map (\<lambda>j. map (\<lambda>i. (real i * x_scale, real j * y_scale,
                  real (img ! j ! i) / 255 * extrude_height a)) [0..<cols]) [0..<rows]
               @ drop rows (np_empty rows cols))"
    using at2_z_array [OF assms] by (intro fill_rows) (simp_all add: np_empty_def)
  then show ?thesis
    by (simp add: fill_top_vertices_def top_vertex_def Let_def np_empty_def)
qed

lemma at2_table:
  "j < rows \<Longrightarrow> i < cols \<Longrightarrow> at2 (map (\<lambda>j. map (v j) [0..<cols]) [0..<rows]) j i = Inr (v j i)"
  by (simp add: at2_def)

lemma top_surface_eq:
  assumes "\<And>j i. j < rows \<Longrightarrow> i < cols \<Longrightarrow> at2 tv j i = Inr (v j i)"
  shows "top_surface rows cols tv facets = Inr (facets @ surface_tris rows cols v)"
  unfolding top_surface_def surface_tris_def
proof (intro for_loop_emit)
  fix j i s
  assume "j \<in> set [0..<rows - 1]" "i \<in> set [0..<cols - 1]"
  then have "j < rows" "j + 1 < rows" "i < cols" "i + 1 < cols"
    by auto
  then show "and_then (at2 tv j i) (\<lambda>v1.
         and_then (at2 tv j (i + 1)) (\<lambda>v2.
         and_then (at2 tv (j + 1) i) (\<lambda>v3.
         and_then (at2 tv (j + 1) (i + 1)) (\<lambda>v4.
         and_then (add_triangle s v1 v2 v3) (\<lambda>facets.
         add_triangle facets v2 v4 v3))))) = Inr (s @ quad_tris v j i)"
    by (simp add: assms add_triangle_eq quad_tris_def)
qed

lemma base_face_eq: "base_face a facets = Inr (facets @ base_tris a)"
  by (simp add: base_face_def base_tris_def add_triangle_eq Let_def)

lemma top_edge_eq:
  assumes "\<And>j i. j < rows \<Longrightarrow> i < cols \<Longrightarrow> at2 tv j i = Inr (v j i)" "0 < rows"
  shows "top_edge cols tv facets = Inr (facets @ top_edge_tris cols v)"
  unfolding top_edge_def top_edge_tris_def Let_def
proof (intro for_loop_emit)
  fix i s
  assume "i \<in> set [0..<cols - 1]"
  then have "i < cols" "i + 1 < cols"
    by auto
  with assms(2) show "and_then (at2 tv 0 i) (\<lambda>v_top1.
         and_then (at2 tv 0 (i + 1)) (\<lambda>v_top2.
         and_then (add_triangle s v_top1 v_top2 (ground v_top1)) (\<lambda>facets.
         add_triangle facets v_top2 (ground v_top2) (ground v_top1))))
       = Inr (s @ forward_tris (v 0 i) (v 0 (i + 1)))"
    by (simp add: assms(1) add_triangle_eq forward_tris_def)
qed

lemma bottom_edge_eq:
  assumes "\<And>j i. j < rows \<Longrightarrow> i < cols \<Longrightarrow> at2 tv j i = Inr (v j i)" "0 < rows"
  shows "bottom_edge rows cols tv facets = Inr (facets @ bottom_edge_tris rows cols v)"
  unfolding bottom_edge_def bottom_edge_tris_def Let_def
proof (intro for_loop_emit)
  fix i s
  assume "i \<in> set [0..<cols - 1]"
  then have "i < cols" "i + 1 < cols"
    by auto
  moreover have "rows - 1 < rows"
    using assms(2) by simp
  ultimately show "and_then (at2 tv (rows - 1) i) (\<lambda>v_top1.
         and_then (at2 tv (rows - 1) (i + 1)) (\<lambda>v_top2.
         and_then (add_triangle s v_top2 v_top1 (ground v_top1)) (\<lambda>facets.
         add_triangle facets v_top2 (ground v_top1) (ground v_top2))))
       = Inr (s @ backward_tris (v (rows - 1) i) (v (rows - 1) (i + 1)))"
    by (simp add: assms(1) add_triangle_eq backward_tris_def)
qed

lemma left_edge_eq:
  assumes "\<And>j i. j < rows \<Longrightarrow> i < cols \<Longrightarrow> at2 tv j i = Inr (v j i)" "0 < cols"
  shows "left_edge rows tv facets = Inr (facets @ left_edge_tris rows v)"
  unfolding left_edge_def left_edge_tris_def Let_def
proof (intro for_loop_emit)
  fix j s
  assume "j \<in> set [0..<rows - 1]"
  then have "j < rows" "j + 1 < rows"
    by auto
  with assms(2) show "and_then (at2 tv j 0) (\<lambda>v_top1.
         and_then (at2 tv (j + 1) 0) (\<lambda>v_top2.
         and_then (add_triangle s v_top2 v_top1 (ground v_top1)) (\<lambda>facets.
         add_triangle facets v_top2 (ground v_top1) (ground v_top2))))
       = Inr (s @ backward_tris (v j 0) (v (j + 1) 0))"
    by (simp add: assms(1) add_triangle_eq backward_tris_def)
qed

lemma right_edge_eq:
  assumes "\<And>j i. j < rows \<Longrightarrow> i < cols \<Longrightarrow> at2 tv j i = Inr (v j i)" "0 < cols"
  shows "right_edge rows cols tv facets = Inr (facets @ right_edge_tris rows cols v)"
  unfolding right_edge_def right_edge_tris_def Let_def
proof (intro for_loop_emit)
  fix j s
  assume "j \<in> set [0..<rows - 1]"
  then have "j < rows" "j + 1 < rows"
    by auto
  moreover have "cols - 1 < cols"
    using assms(2) by simp
  ultimately show "and_then (at2 tv j (cols - 1)) (\<lambda>v_top1.
         and_then (at2 tv (j + 1) (cols - 1)) (\<lambda>v_top2.
         and_then (add_triangle s v_top1 v_top2 (ground v_top1)) (\<lambda>facets.
         add_triangle facets v_top2 (ground v_top2) (ground v_top1))))
       = Inr (s @ forward_tris (v j (cols - 1)) (v (j + 1) (cols - 1)))"
    by (simp add: assms(1) add_triangle_eq forward_tris_def)
qed

lemma generate_continuous_mesh_eq:
  assumes "rectangular img" "shape img = (rows, cols)" "2 \<le> rows" "2 \<le> cols"
  shows "generate_continuous_mesh a img = Inr (continuous_tris a img)"
proof -
  define x_scale y_scale where "x_scale = x_size a / real_of_int (int cols - 1)"
    and "y_scale = y_size a / real_of_int (int rows - 1)"
  define v where "v = top_vertex a img x_scale y_scale"
  define tv where "tv = map (\<lambda>j. map (v j) [0..<cols]) [0..<rows]"
  have px: "py_div (x_size a) (int cols - 1) = Inr x_scale"
    and py: "py_div (y_size a) (int rows - 1) = Inr y_scale"
    using assms(3,4) by (simp_all add: py_div_def x_scale_def y_scale_def)
  have fill: "fill_top_vertices rows cols x_scale y_scale (z_array_of a img) = Inr tv"
    unfolding tv_def v_def by (rule fill_top_vertices_eq [OF assms(1,2)])
  have rd: "at2 tv j i = Inr (v j i)" if "j < rows" "i < cols" for j i
    unfolding tv_def using that by (rule at2_table)
  have pos: "0 < rows" "0 < cols"
    using assms(3,4) by simp_all
  have "generate_continuous_mesh a img
        = Inr (surface_tris rows cols v @ base_tris a @ top_edge_tris cols v
               @ bottom_edge_tris rows cols v @ left_edge_tris rows v
               @ right_edge_tris rows cols v)"
    by (simp add: generate_continuous_mesh_def assms(2) px py fill Let_def
        top_surface_eq [of rows cols tv v, OF rd] base_face_eq
        top_edge_eq [of rows cols tv v, OF rd pos(1)]
        bottom_edge_eq [of rows cols tv v, OF rd pos(1)]
        left_edge_eq [of rows cols tv v, OF rd pos(2)]
        right_edge_eq [of rows cols tv v, OF rd pos(2)])
  then show ?thesis
    by (simp add: continuous_tris_def assms(2) v_def x_scale_def y_scale_def Let_def)
qed

section \<open>Continuous mode: triangle counts and small grids\<close>

lemma length_concat_const:
  "(\<And>x. x \<in> set xs \<Longrightarrow> length (f x) = n) \<Longrightarrow> length (concat (map f xs)) = n * length xs"
  by (induction xs) simp_all

lemma length_surface_tris: "length (surface_tris rows cols v) = 2 * (rows - 1) * (cols - 1)"
proof -
  have "length (concat (map (\<lambda>i. quad_tris v j i) [0..<cols - 1])) = 2 * (cols - 1)" for j
    by (subst length_concat_const [where n = 2]) (simp_all add: quad_tris_def)
  then have "length (surface_tris rows cols v) = (2 * (cols - 1)) * (rows - 1)"
    unfolding surface_tris_def by (subst length_concat_const [where n = "2 * (cols - 1)"]) simp_all
  then show ?thesis
    by (simp add: mult.commute mult.left_commute)
qed

lemma length_edge_tris:
  "length (top_edge_tris cols v) = 2 * (cols - 1)"
  "length (bottom_edge_tris rows cols v) = 2 * (cols - 1)"
  "length (left_edge_tris rows v) = 2 * (rows - 1)"
  "length (right_edge_tris rows cols v) = 2 * (rows - 1)"
  unfolding top_edge_tris_def bottom_edge_tris_def left_edge_tris_def right_edge_tris_def
  by (subst length_concat_const [where n = 2]; simp add: forward_tris_def backward_tris_def)+

text \<open>
  C9. On a grid with at least two rows and two columns the continuous builder returns
  the facets of its six loops in order: 2 (rows - 1) (cols - 1) top-surface triangles,
  2 base triangles, 2 (cols - 1) triangles along row 0 and along the last row, and
  2 (rows - 1) triangles along column 0 and along the last column.
\<close>

theorem continuous_triangle_counts:
  assumes "rectangular img" "shape img = (rows, cols)" "2 \<le> rows" "2 \<le> cols"
  shows "\<exists>x_scale y_scale tv top base e_top e_bottom e_left e_right.
           py_div (x_size a) (int cols - 1) = Inr x_scale
         \<and> py_div (y_size a) (int rows - 1) = Inr y_scale
         \<and> fill_top_vertices rows cols x_scale y_scale (z_array_of a img) = Inr tv
         \<and> top_surface rows cols tv [] = Inr top
         \<and> base_face a [] = Inr base
         \<and> top_edge cols tv [] = Inr e_top
         \<and> bottom_edge rows cols tv [] = Inr e_bottom
         \<and> left_edge rows tv [] = Inr e_left
         \<and> right_edge rows cols tv [] = Inr e_right
         \<and> generate_continuous_mesh a img
             = Inr (top @ base @ e_top @ e_bottom @ e_left @ e_right)
         \<and> length top = 2 * (rows - 1) * (cols - 1)
         \<and> length base = 2
         \<and> length e_top = 2 * (cols - 1)
         \<and> length e_bottom = 2 * (cols - 1)
         \<and> length e_left = 2 * (rows - 1)
         \<and> length e_right = 2 * (rows - 1)"
proof -
  define x_scale y_scale where "x_scale = x_size a / real_of_int (int cols - 1)"
    and "y_scale = y_size a / real_of_int (int rows - 1)"
  define v where "v = top_vertex a img x_scale y_scale"
  define tv where "tv = map (\<lambda>j. map (v j) [0..<cols]) [0..<rows]"
  have px: "py_div (x_size a) (int cols - 1) = Inr x_scale"
    and py: "py_div (y_size a) (int rows - 1) = Inr y_scale"
    using assms(3,4) by (simp_all add: py_div_def x_scale_def y_scale_def)
  have fill: "fill_top_vertices rows cols x_scale y_scale (z_array_of a img) = Inr tv"
    unfolding tv_def v_def by (rule fill_top_vertices_eq [OF assms(1,2)])
  have rd: "at2 tv j i = Inr (v j i)" if "j < rows" "i < cols" for j i
    unfolding tv_def using that by (rule at2_table)
  have pos: "0 < rows" "0 < cols"
    using assms(3,4) by simp_all
  have mesh: "generate_continuous_mesh a img
        = Inr (surface_tris rows cols v @ base_tris a @ top_edge_tris cols v
               @ bottom_edge_tris rows cols v @ left_edge_tris rows v
               @ right_edge_tris rows cols v)"
    unfolding generate_continuous_mesh_eq [OF assms]
    by (simp add: continuous_tris_def assms(2) v_def x_scale_def y_scale_def Let_def)
  show ?thesis
  proof (intro exI conjI)
    show "py_div (x_size a) (int cols - 1) = Inr x_scale" by (rule px)
    show "py_div (y_size a) (int rows - 1) = Inr y_scale" by (rule py)
    show "fill_top_vertices rows cols x_scale y_scale (z_array_of a img) = Inr tv" by (rule fill)
    show "top_surface rows cols tv [] = Inr (surface_tris rows cols v)"
      using top_surface_eq [of rows cols tv v "[]", OF rd] by simp
    show "base_face a [] = Inr (base_tris a)"
      by (simp add: base_face_eq)
    show "top_edge cols tv [] = Inr (top_edge_tris cols v)"
      using top_edge_eq [of rows cols tv v "[]", OF rd pos(1)] by simp
    show "bottom_edge rows cols tv [] = Inr (bottom_edge_tris rows cols v)"
      using bottom_edge_eq [of rows cols tv v "[]", OF rd pos(1)] by simp
    show "left_edge rows tv [] = Inr (left_edge_tris rows v)"
      using left_edge_eq [of rows cols tv v "[]", OF rd pos(2)] by simp
    show "right_edge rows cols tv [] = Inr (right_edge_tris rows cols v)"
      using right_edge_eq [of rows cols tv v "[]", OF rd pos(2)] by simp
    show "generate_continuous_mesh a img
          = Inr (surface_tris rows cols v @ base_tris a @ top_edge_tris cols v
                 @ bottom_edge_tris rows cols v @ left_edge_tris rows v
                 @ right_edge_tris rows cols v)"
      by (rule mesh)
  qed (simp_all add: length_surface_tris length_edge_tris base_tris_def)
qed

lemma shape_2x2: "shape [[p, q], [r, s]] = (2, 2)"
  by (simp add: shape_def)

lemma rectangular_2x2: "rectangular [[p, q], [r, s]]"
  by (simp add: rectangular_def shape_def)

theorem continuous_triangle_counts_witness:
  "rectangular [[0, 255], [255, 0 :: nat]] \<and> shape [[0, 255], [255, 0 :: nat]] = (2, 2)
   \<and> (\<exists>top base e_top e_bottom e_left e_right.
         generate_continuous_mesh default_args [[0, 255], [255, 0]]
           = Inr (top @ base @ e_top @ e_bottom @ e_left @ e_right)
         \<and> length top = 2 \<and> length base = 2 \<and> length e_top = 2 \<and> length e_bottom = 2
         \<and> length e_left = 2 \<and> length e_right = 2
         \<and> length (top @ base @ e_top @ e_bottom @ e_left @ e_right) = 12)"
proof -
  note t = continuous_triangle_counts [OF rectangular_2x2 [of 0 255 255 0]
      shape_2x2 [of 0 255 255 0] order_refl order_refl, where a = default_args]
  from t obtain top base e_top e_bottom e_left e_right where
    m: "generate_continuous_mesh default_args [[0, 255], [255, 0]]
       = Inr (top @ base @ e_top @ e_bottom @ e_left @ e_right)"
    and l: "length top = 2 * (2 - 1) * (2 - 1)" "length base = 2"
      "length e_top = 2 * (2 - 1)" "length e_bottom = 2 * (2 - 1)"
      "length e_left = 2 * (2 - 1)" "length e_right = 2 * (2 - 1)"
    by blast
  from l have l': "length top = 2" "length e_top = 2" "length e_bottom = 2"
    "length e_left = 2" "length e_right = 2"
    by simp_all
  have "generate_continuous_mesh default_args [[0, 255], [255, 0]]
           = Inr (top @ base @ e_top @ e_bottom @ e_left @ e_right)
         \<and> length top = 2 \<and> length base = 2 \<and> length e_top = 2 \<and> length e_bottom = 2
         \<and> length e_left = 2 \<and> length e_right = 2
         \<and> length (top @ base @ e_top @ e_bottom @ e_left @ e_right) = 12"
    using m l(2) l' by simp
  then have "\<exists>top base e_top e_bottom e_left e_right.
         generate_continuous_mesh default_args [[0, 255], [255, 0]]
           = Inr (top @ base @ e_top @ e_bottom @ e_left @ e_right)
         \<and> length top = 2 \<and> length base = 2 \<and> length e_top = 2 \<and> length e_bottom = 2
         \<and> length e_left = 2 \<and> length e_right = 2
         \<and> length (top @ base @ e_top @ e_bottom @ e_left @ e_right) = 12"
    by (intro exI)
  with rectangular_2x2 [of 0 255 255 0] shape_2x2 [of 0 255 255 0] show ?thesis
    by (intro conjI)
qed

text \<open>
  C4. The continuous builder has no guard on the grid size. On a grid with one row or
  one column it fails at the scale computation, \<open>x_size / (cols - 1)\<close> or
  \<open>y_size / (rows - 1)\<close>, with Python's ZeroDivisionError; the facet list does not
  exist yet at that point, so no mesh is returned.
\<close>

theorem continuous_small_grid_fails:
  assumes "shape img = (rows, cols)" "1 \<le> rows" "1 \<le> cols" "rows < 2 \<or> cols < 2"
  shows "generate_continuous_mesh a img = Inl ZeroDivisionError"
proof (cases "cols = 1")
  case True
  with assms(1) show ?thesis
    by (simp add: generate_continuous_mesh_def py_div_def)
next
  case False
  with assms have "rows = 1" "int cols - 1 \<noteq> 0"
    by auto
  with assms(1) show ?thesis
    by (simp add: generate_continuous_mesh_def py_div_def)
qed

theorem continuous_small_grid_fails_witness:
  "shape [[7, 9, 11 :: nat]] = (1, 3) \<and> (1 :: nat) \<le> 1 \<and> (1 :: nat) \<le> 3 \<and> ((1 :: nat) < 2 \<or> (3 :: nat) < 2)
   \<and> generate_continuous_mesh default_args [[7, 9, 11]] = Inl ZeroDivisionError"
proof -
  have s: "shape [[7, 9, 11 :: nat]] = (1, 3)"
    by (simp add: shape_def)
  have "generate_continuous_mesh default_args [[7, 9, 11]] = Inl ZeroDivisionError"
    by (rule continuous_small_grid_fails [OF s]) simp_all
  with s show ?thesis
    by simp
qed

theorem continuous_one_pixel_divides_by_zero:
  "py_div (x_size default_args) (int (snd (shape [[0 :: nat]])) - 1) = Inl ZeroDivisionError
   \<and> generate_continuous_mesh default_args [[0]] = Inl ZeroDivisionError"
  by (simp add: generate_continuous_mesh_def py_div_def shape_def)

section \<open>Continuous mode: the normals of the base and the walls\<close>

lemma flat_2x2_mesh:
  "generate_continuous_mesh default_args [[255, 255], [255, 255]]
   = Inr [((0, 0, 1), (0, 0, 15), (120, 0, 15), (0, 120, 15)),
          ((0, 0, 1), (120, 0, 15), (120, 120, 15), (0, 120, 15)),
          ((0, 0, 1), (0, 0, 0), (120, 0, 0), (0, 120, 0)),
          ((0, 0, 1), (120, 0, 0), (120, 120, 0), (0, 120, 0)),
          ((0, 1, 0), (0, 0, 15), (120, 0, 15), (0, 0, 0)),
          ((0, 1, 0), (120, 0, 15), (120, 0, 0), (0, 0, 0)),
          ((0, - 1, 0), (120, 120, 15), (0, 120, 15), (0, 120, 0)),
          ((0, - 1, 0), (120, 120, 15), (0, 120, 0), (120, 120, 0)),
          ((1, 0, 0), (0, 120, 15), (0, 0, 15), (0, 0, 0)),
          ((1, 0, 0), (0, 120, 15), (0, 0, 0), (0, 120, 0)),
          ((- 1, 0, 0), (120, 0, 15), (120, 120, 15), (120, 0, 0)),
          ((- 1, 0, 0), (120, 120, 15), (120, 120, 0), (120, 0, 0))]"
proof -
  let ?img = "[[255, 255], [255, 255]] :: grid"
  define v where "v = top_vertex default_args ?img 120 120"
  have v: "v 0 0 = (0, 0, 15)" "v 0 (Suc 0) = (120, 0, 15)"
    "v (Suc 0) 0 = (0, 120, 15)" "v (Suc 0) (Suc 0) = (120, 120, 15)"
    by (simp_all add: v_def top_vertex_def default_args_def)
  have "generate_continuous_mesh default_args ?img = Inr (continuous_tris default_args ?img)"
    by (rule generate_continuous_mesh_eq [OF rectangular_2x2 shape_2x2]) simp_all
  also have "continuous_tris default_args ?img
        = quad_tris v 0 0 @ base_tris default_args @ forward_tris (v 0 0) (v 0 1)
          @ backward_tris (v 1 0) (v 1 1) @ backward_tris (v 0 0) (v 1 0)
          @ forward_tris (v 0 1) (v 1 1)"
    by (simp add: continuous_tris_def shape_2x2 surface_tris_def top_edge_tris_def
        bottom_edge_tris_def left_edge_tris_def right_edge_tris_def v_def default_args_def
        numeral_2_eq_2 Let_def)
  also have "quad_tris v 0 0
        = [((0, 0, 1), (0, 0, 15), (120, 0, 15), (0, 120, 15)),
           ((0, 0, 1), (120, 0, 15), (120, 120, 15), (0, 120, 15))]"
    by (simp add: quad_tris_def v tri_def normal_of_def cross_def vsub_def)
  also have "base_tris default_args
        = [((0, 0, 1), (0, 0, 0), (120, 0, 0), (0, 120, 0)),
           ((0, 0, 1), (120, 0, 0), (120, 120, 0), (0, 120, 0))]"
    by (simp add: base_tris_def default_args_def tri_def normal_of_def cross_def vsub_def)
  also have "forward_tris (v 0 0) (v 0 1)
        = [((0, 1, 0), (0, 0, 15), (120, 0, 15), (0, 0, 0)),
           ((0, 1, 0), (120, 0, 15), (120, 0, 0), (0, 0, 0))]"
    by (simp add: forward_tris_def ground_def v tri_def normal_of_def cross_def vsub_def)
  also have "backward_tris (v 1 0) (v 1 1)
        = [((0, - 1, 0), (120, 120, 15), (0, 120, 15), (0, 120, 0)),
           ((0, - 1, 0), (120, 120, 15), (0, 120, 0), (120, 120, 0))]"
    by (simp add: backward_tris_def ground_def v tri_def normal_of_def cross_def vsub_def)
  also have "backward_tris (v 0 0) (v 1 0)
        = [((1, 0, 0), (0, 120, 15), (0, 0, 15), (0, 0, 0)),
           ((1, 0, 0), (0, 120, 15), (0, 0, 0), (0, 120, 0))]"
    by (simp add: backward_tris_def ground_def v tri_def normal_of_def cross_def vsub_def)
  also have "forward_tris (v 0 1) (v 1 1)
        = [((- 1, 0, 0), (120, 0, 15), (120, 120, 15), (120, 0, 0)),
           ((- 1, 0, 0), (120, 120, 15), (120, 120, 0), (120, 0, 0))]"
    by (simp add: forward_tris_def ground_def v tri_def normal_of_def cross_def vsub_def)
  finally show ?thesis
    by simp
qed

lemma base_tris_up:
  assumes "0 < x_size a" "0 < y_size a"
  shows "base_tris a
         = [((0, 0, 1), (0, 0, 0), (x_size a, 0, 0), (0, y_size a, 0)),
            ((0, 0, 1), (x_size a, 0, 0), (x_size a, y_size a, 0), (0, y_size a, 0))]"
proof -
  have p: "0 < x_size a * y_size a"
    using assms by simp
  have "tri (0, 0, 0) (x_size a, 0, 0) (0, y_size a, 0)
        = ((0, 0, sgn (x_size a * y_size a)), (0, 0, 0), (x_size a, 0, 0), (0, y_size a, 0))"
    using p assms by (intro tri_z) (simp_all add: cross_def vsub_def)
  moreover have "tri (x_size a, 0, 0) (x_size a, y_size a, 0) (0, y_size a, 0)
        = ((0, 0, sgn (x_size a * y_size a)), (x_size a, 0, 0), (x_size a, y_size a, 0),
           (0, y_size a, 0))"
    using p assms by (intro tri_z) (simp_all add: cross_def vsub_def algebra_simps)
  ultimately show ?thesis
    using p by (simp add: base_tris_def)
qed

text \<open>
  C3. The mesh of the 2 by 2 image \<open>[[255, 255], [255, 255]]\<close> under the default
  configuration, in continuous mode: a box of height 15 over the square from 0 to 120.
  The two base triangles (facets 3 and 4) span the square at z = 0 and have the normal
  (0, 0, 1), upward like the top surface. The wall along row 0 (facets 5 and 6, at y = 0)
  has the normal (0, 1, 0), the wall along the last row (facets 7 and 8, at y = 120) has
  (0, -1, 0), the wall along column 0 (facets 9 and 10, at x = 0) has (1, 0, 0) and the
  wall along the last column (facets 11 and 12, at x = 120) has (-1, 0, 0): all four
  point into the box.
\<close>

theorem continuous_base_and_walls_face_inward:
  "generate_continuous_mesh default_args [[255, 255], [255, 255]]
   = Inr [((0, 0, 1), (0, 0, 15), (120, 0, 15), (0, 120, 15)),
          ((0, 0, 1), (120, 0, 15), (120, 120, 15), (0, 120, 15)),
          ((0, 0, 1), (0, 0, 0), (120, 0, 0), (0, 120, 0)),
          ((0, 0, 1), (120, 0, 0), (120, 120, 0), (0, 120, 0)),
          ((0, 1, 0), (0, 0, 15), (120, 0, 15), (0, 0, 0)),
          ((0, 1, 0), (120, 0, 15), (120, 0, 0), (0, 0, 0)),
          ((0, - 1, 0), (120, 120, 15), (0, 120, 15), (0, 120, 0)),
          ((0, - 1, 0), (120, 120, 15), (0, 120, 0), (120, 120, 0)),
          ((1, 0, 0), (0, 120, 15), (0, 0, 15), (0, 0, 0)),
          ((1, 0, 0), (0, 120, 15), (0, 0, 0), (0, 120, 0)),
          ((- 1, 0, 0), (120, 0, 15), (120, 120, 15), (120, 0, 0)),
          ((- 1, 0, 0), (120, 120, 15), (120, 120, 0), (120, 0, 0))]"
  by (rule flat_2x2_mesh)

section \<open>Edge sharing on the integer lattice\<close>



















lemma triangle_of_tri [simp]: "triangle_of (tri v1 v2 v3) = (v1, v2, v3)"
  by (simp add: triangle_of_def tri_def)












section \<open>The height field on the lattice\<close>


















section \<open>Edge counts around a lattice point\<close>





















section \<open>Mesh closure\<close>




















end
